theory Spec2Isabelle
  imports Main "HOL-Library.Sublist"
begin

section \<open>IPP values (the goipp library, as ipp.go uses it)\<close>

text \<open>
  ipp.go works on decoded IPP messages of the goipp library. A value is a tagged union;
  \<open>Type\<close> is the result of its \<open>Type()\<close> method. An attribute is a name with a
  sequence of (tag, value) pairs; a collection value is a sequence of attributes.
\<close>

datatype Type =
    TypeInvalid | TypeVoid | TypeInteger | TypeBoolean | TypeString | TypeDateTime
  | TypeResolution | TypeRange | TypeTextWithLang | TypeBinary | TypeCollection

type_synonym Tag = nat

datatype Value =
    Void
  | Integer int
  | Boolean bool
  | String string
  | Time string
  | Resolution int int nat
  | Range (Lower: int) (Upper: int)
  | TextWithLang string string
  | Binary string
  | Collection "Attribute list"
and Attribute = Attribute (Name: string) (Values: "(Tag \<times> Value) list")

type_synonym Values = "(Tag \<times> Value) list"

fun Type_of :: "Value \<Rightarrow> Type" where
  "Type_of Void = TypeVoid"
| "Type_of (Integer _) = TypeInteger"
| "Type_of (Boolean _) = TypeBoolean"
| "Type_of (String _) = TypeString"
| "Type_of (Time _) = TypeDateTime"
| "Type_of (Resolution _ _ _) = TypeResolution"
| "Type_of (Range _ _) = TypeRange"
| "Type_of (TextWithLang _ _) = TypeTextWithLang"
| "Type_of (Binary _) = TypeBinary"
| "Type_of (Collection _) = TypeCollection"

text \<open>
  A Go run-time panic is a value of the model: an index past the end of a slice, a failed
  type assertion \<open>v.(T)\<close>, or a method called through a nil reference.
\<close>

datatype panic = IndexOutOfRange | TypeAssertion | NilDereference

definition bind_panic :: "panic + 'a \<Rightarrow> ('a \<Rightarrow> panic + 'b) \<Rightarrow> panic + 'b" where
  "bind_panic m f = (case m of Inl p \<Rightarrow> Inl p | Inr x \<Rightarrow> f x)"

section \<open>The attribute store (ipp.go, ippAttrs)\<close>

text \<open>\<open>type ippAttrs map[string]goipp.Values\<close>\<close>

type_synonym ippAttrs = "string \<Rightarrow> Values option"

text \<open>
  \<open>newIppDecoder\<close> walks \<open>msg.Printer\<close> from its last index down to 0 and stores
  \<open>attrs[attr.Name] = attr.Values\<close> at each index.
\<close>

definition newIppDecoder :: "Attribute list \<Rightarrow> ippAttrs" where
  "newIppDecoder Printer =
     fold (\<lambda>attr attrs. attrs(Name attr \<mapsto> Values attr)) (rev Printer) Map.empty"

text \<open>
  \<open>getAttr\<close>: the first of \<open>names\<close> that is in the map and whose first value has type
  \<open>t\<close> gives its values; the result is Go's nil slice (\<open>None\<close>) when there is none.
  \<open>v[0]\<close> is evaluated only when the name is in the map, and panics on an empty \<open>v\<close>.
\<close>

fun getAttr :: "ippAttrs \<Rightarrow> Type \<Rightarrow> string list \<Rightarrow> panic + Value list option" where
  "getAttr attrs t [] = Inr None"
| "getAttr attrs t (name # names) =
     (case attrs name of
        None \<Rightarrow> getAttr attrs t names
      | Some v \<Rightarrow>
          (case v of
             [] \<Rightarrow> Inl IndexOutOfRange
           | v0 # _ \<Rightarrow>
               if Type_of (snd v0) = t then Inr (Some (map snd v))
               else getAttr attrs t names))"

text \<open>The type assertion \<open>v.(goipp.String)\<close> and the conversion to \<open>string\<close>.\<close>

fun assertString :: "Value \<Rightarrow> panic + string" where
  "assertString (String s) = Inr s"
| "assertString _ = Inl TypeAssertion"

fun assertStrings :: "Value list \<Rightarrow> panic + string list" where
  "assertStrings [] = Inr []"
| "assertStrings (v # vs) =
     bind_panic (assertString v) (\<lambda>s.
     bind_panic (assertStrings vs) (\<lambda>ss. Inr (s # ss)))"

text \<open>
  \<open>getStrings\<close>: \<open>strs := make([]string, len(vals))\<close> is an allocated slice, never Go's
  nil, also when \<open>vals\<close> is nil and its length 0; the loop asserts every value to be a
  string. The result is \<open>Some\<close> of the strings for that reason.
\<close>

definition getStrings :: "ippAttrs \<Rightarrow> string list \<Rightarrow> panic + string list option" where
  "getStrings attrs names =
     bind_panic (getAttr attrs TypeString names) (\<lambda>vals.
     bind_panic (assertStrings (case vals of None \<Rightarrow> [] | Some vs \<Rightarrow> vs)) (\<lambda>strs.
     Inr (Some strs)))"

text \<open>\<open>strSingle\<close>: the empty string when \<open>strs == nil\<close>, else \<open>strs[0]\<close>.\<close>

definition strSingle :: "ippAttrs \<Rightarrow> string list \<Rightarrow> panic + string" where
  "strSingle attrs names =
     bind_panic (getStrings attrs names) (\<lambda>strs.
       case strs of
         None \<Rightarrow> Inr ''''
       | Some [] \<Rightarrow> Inl IndexOutOfRange
       | Some (s # _) \<Rightarrow> Inr s)"

text \<open>\<open>strings.Join(strs, ",")\<close>\<close>

fun Join :: "string list \<Rightarrow> string \<Rightarrow> string" where
  "Join [] sep = ''''"
| "Join [s] sep = s"
| "Join (s # t # ss) sep = s @ sep @ Join (t # ss) sep"

definition strJoined :: "ippAttrs \<Rightarrow> string list \<Rightarrow> panic + string" where
  "strJoined attrs names =
     bind_panic (getStrings attrs names) (\<lambda>strs.
       Inr (Join (case strs of None \<Rightarrow> [] | Some ss \<Rightarrow> ss) '',''))"

definition strBrackets :: "ippAttrs \<Rightarrow> string list \<Rightarrow> panic + string" where
  "strBrackets attrs names =
     bind_panic (strSingle attrs names) (\<lambda>s.
       Inr (if s \<noteq> '''' then ''('' @ s @ '')'' else s))"

text \<open>\<open>getBool\<close>: the empty string on nil, else \<open>vals[0].(goipp.Boolean)\<close> as "T" or "F".\<close>

definition getBool :: "ippAttrs \<Rightarrow> string list \<Rightarrow> panic + string" where
  "getBool attrs names =
     bind_panic (getAttr attrs TypeBoolean names) (\<lambda>vals.
       case vals of
         None \<Rightarrow> Inr ''''
       | Some [] \<Rightarrow> Inl IndexOutOfRange
       | Some (Boolean b # _) \<Rightarrow> Inr (if b then ''T'' else ''F'')
       | Some (_ # _) \<Rightarrow> Inl TypeAssertion)"

text \<open>
  \<open>getDuplex\<close>: the loop over the values of "sides-supported" asserts each to be a
  string and sets \<open>one\<close> or \<open>two\<close> by its prefix (the \<open>switch\<close> takes the first case
  that holds).
\<close>

fun getDuplex_loop :: "Value list \<Rightarrow> bool \<times> bool \<Rightarrow> panic + bool \<times> bool" where
  "getDuplex_loop [] (one, two) = Inr (one, two)"
| "getDuplex_loop (v # vals) (one, two) =
     bind_panic (assertString v) (\<lambda>s.
       if prefix ''one'' s then getDuplex_loop vals (True, two)
       else if prefix ''two'' s then getDuplex_loop vals (one, True)
       else getDuplex_loop vals (one, two))"

definition getDuplex :: "ippAttrs \<Rightarrow> panic + string" where
  "getDuplex attrs =
     bind_panic (getAttr attrs TypeString [''sides-supported'']) (\<lambda>vals.
     bind_panic (getDuplex_loop (case vals of None \<Rightarrow> [] | Some vs \<Rightarrow> vs) (False, False))
       (\<lambda>(one, two).
          Inr (if two then ''T'' else if one then ''F'' else '''')))"

text \<open>
  \<open>getPaperMax\<close>. For one collection the inner loop runs from the last attribute to the
  first and keeps in \<open>x_dim_attr\<close> and \<open>y_dim_attr\<close> the attribute named "x-dimension"
  and "y-dimension" that it saw last; both start as the zero \<open>Attribute\<close>.
\<close>

definition find_dims :: "Attribute list \<Rightarrow> Attribute \<times> Attribute" where
  "find_dims attrs =
     fold (\<lambda>a (x_dim_attr, y_dim_attr).
             if Name a = ''x-dimension'' then (a, y_dim_attr)
             else if Name a = ''y-dimension'' then (x_dim_attr, a)
             else (x_dim_attr, y_dim_attr))
          (rev attrs) (Attribute '''' [], Attribute '''' [])"

text \<open>
  The update of a running maximum by one dimension attribute: only when it has a value,
  by the type switch on \<open>Values[0].V\<close> (an integer, or the upper bound of a range).
\<close>

definition dim_max :: "Attribute \<Rightarrow> int \<Rightarrow> int" where
  "dim_max dim_attr m =
     (case Values dim_attr of
        [] \<Rightarrow> m
      | v0 # _ \<Rightarrow>
          (case snd v0 of
             Integer dim \<Rightarrow> if dim > m then dim else m
           | Range lo up \<Rightarrow> if up > m then up else m
           | _ \<Rightarrow> m))"

fun getPaperMax_loop :: "Value list \<Rightarrow> int \<times> int \<Rightarrow> panic + int \<times> int" where
  "getPaperMax_loop [] (x_dim_max, y_dim_max) = Inr (x_dim_max, y_dim_max)"
| "getPaperMax_loop (collection # vals) (x_dim_max, y_dim_max) =
     (case collection of
        Collection attrs \<Rightarrow>
          (case find_dims attrs of
             (x_dim_attr, y_dim_attr) \<Rightarrow>
               getPaperMax_loop vals (dim_max x_dim_attr x_dim_max, dim_max y_dim_attr y_dim_max))
      | _ \<Rightarrow> Inl TypeAssertion)"

definition legal_a4_x :: int where "legal_a4_x = 21600"
definition legal_a4_y :: int where "legal_a4_y = 35400"
definition tabloid_a3_x :: int where "tabloid_a3_x = 27900"
definition tabloid_a3_y :: int where "tabloid_a3_y = 43200"
definition isoC_a2_x :: int where "isoC_a2_x = 43200"
definition isoC_a2_y :: int where "isoC_a2_y = 55900"

text \<open>The final \<open>switch\<close> of \<open>getPaperMax\<close>, after the test for a zero maximum.\<close>

definition classify :: "int \<Rightarrow> int \<Rightarrow> string" where
  "classify x_dim_max y_dim_max =
     (if x_dim_max = 0 \<or> y_dim_max = 0 then ''''
      else if x_dim_max > isoC_a2_x \<and> y_dim_max > isoC_a2_y then ''>isoC-A2''
      else if x_dim_max \<ge> isoC_a2_x \<and> y_dim_max \<ge> isoC_a2_y then ''isoC-A2''
      else if x_dim_max \<ge> tabloid_a3_x \<and> y_dim_max \<ge> tabloid_a3_y then ''tabloid-A3''
      else if x_dim_max \<ge> legal_a4_x \<and> y_dim_max \<ge> legal_a4_y then ''legal-A4''
      else ''<legal-A4'')"

definition getPaperMax :: "ippAttrs \<Rightarrow> panic + string" where
  "getPaperMax attrs =
     bind_panic (getAttr attrs TypeCollection [''media-size-supported'']) (\<lambda>vals.
       case vals of
         None \<Rightarrow> Inr ''''
       | Some vs \<Rightarrow>
           bind_panic (getPaperMax_loop vs (0, 0)) (\<lambda>(x_dim_max, y_dim_max).
             Inr (classify x_dim_max y_dim_max)))"

section \<open>The TXT record and the IEEE 1284 device ID\<close>

record DnsSdInfo =
  Type :: string
  Txt :: "(string \<times> string) list"

text \<open>
  Modelled from the spec: \<open>Txt.Add\<close> and \<open>Txt.AddNotEmpty\<close> are methods of this
  repository's TXT record type, which is not among the source files. The spec has the
  record as an ordered sequence of (key, value) pairs, a field "always written (empty
  string allowed)" by the first and "omitted" when its value is empty by the second;
  ipp.go uses the second's result as "the field was written".
\<close>

definition Add :: "(string \<times> string) list \<Rightarrow> string \<Rightarrow> string \<Rightarrow> (string \<times> string) list" where
  "Add txt key val = txt @ [(key, val)]"

definition AddNotEmpty ::
  "(string \<times> string) list \<Rightarrow> string \<Rightarrow> string \<Rightarrow> (string \<times> string) list \<times> bool" where
  "AddNotEmpty txt key val = (if val \<noteq> '''' then (Add txt key val, True) else (txt, False))"

text \<open>
  \<open>strings.Split(s, sep)\<close> for a one-character separator: the pieces of \<open>s\<close> between
  the separators, one piece more than there are separators (so one empty piece for the
  empty string).
\<close>

fun Split :: "string \<Rightarrow> char \<Rightarrow> string list" where
  "Split [] sep = [[]]"
| "Split (c # cs) sep =
     (if c = sep then [] # Split cs sep
      else (case Split cs sep of
              [] \<Rightarrow> [[c]]
            | piece # pieces \<Rightarrow> (c # piece) # pieces))"

text \<open>
  \<open>strings.SplitN(s, sep, 2)\<close> for a one-character separator: \<open>s\<close> alone when it has
  no separator, else what is before the first separator and what is after it.
\<close>

definition SplitN2 :: "string \<Rightarrow> char \<Rightarrow> string list" where
  "SplitN2 s sep =
     (if sep \<in> set s
      then [takeWhile (\<lambda>c. c \<noteq> sep) s, tl (dropWhile (\<lambda>c. c \<noteq> sep) s)]
      else [s])"

text \<open>
  The loop of \<open>Decode\<close> over the device ID (ipp.go, lines 121 to 127):
  \<open>devid[keyval[0]] = keyval[1]\<close> for each segment that splits in two.
\<close>

definition parse_devid :: "string \<Rightarrow> (string \<Rightarrow> string option)" where
  "parse_devid s =
     fold (\<lambda>id devid.
             case SplitN2 id CHR '':'' of
               [k, v] \<Rightarrow> devid(k \<mapsto> v)
             | _ \<Rightarrow> devid)
          (Split s CHR '';'') Map.empty"

text \<open>Reading a Go \<open>map[string]string\<close>: the empty string for a key that is not there.\<close>

definition index_map :: "(string \<Rightarrow> string option) \<Rightarrow> string \<Rightarrow> string" where
  "index_map m k = (case m k of None \<Rightarrow> '''' | Some v \<Rightarrow> v)"

text \<open>\<open>strings.TrimPrefix\<close>\<close>

definition TrimPrefix :: "string \<Rightarrow> string \<Rightarrow> string" where
  "TrimPrefix s p = (if prefix p s then drop (length p) s else s)"

section \<open>Decode and IppService (ipp.go)\<close>

text \<open>
  \<open>Decode\<close>, statement by statement; a call that panics ends it. The debug log at its
  end is left out.
\<close>

definition Decode :: "ippAttrs \<Rightarrow> panic + string \<times> DnsSdInfo" where
  "Decode attrs =
     bind_panic (strSingle attrs
        [''printer-dns-sd-name'', ''printer-info'', ''printer-make-and-model'']) (\<lambda>dnssd_name.
     bind_panic (strSingle attrs [''printer-device-id'']) (\<lambda>device_id.
     let devid = parse_devid device_id;
         txt = Add [] ''air'' ''none'' in
     bind_panic (strSingle attrs [''mopria-certified'']) (\<lambda>mopria.
     let txt = fst (AddNotEmpty txt ''mopria-certified'' mopria);
         txt = Add txt ''rp'' ''ipp/print'';
         txt = Add txt ''priority'' ''50'' in
     bind_panic (strJoined attrs [''printer-kind'']) (\<lambda>kind.
     let txt = fst (AddNotEmpty txt ''kind'' kind) in
     bind_panic (getPaperMax attrs) (\<lambda>paper_max.
     let txt = fst (AddNotEmpty txt ''PaperMax'' paper_max) in
     bind_panic (strJoined attrs [''urf-supported'']) (\<lambda>urf.
     let txt = (case AddNotEmpty txt ''URF'' urf of
                  (txt', added) \<Rightarrow>
                    if \<not> added then fst (AddNotEmpty txt' ''URF'' (index_map devid ''URF''))
                    else txt') in
     bind_panic (strSingle attrs [''printer-uuid'']) (\<lambda>uuid.
     let txt = fst (AddNotEmpty txt ''UUID'' (TrimPrefix uuid ''urn:uuid:'')) in
     bind_panic (getBool attrs [''color-supported'']) (\<lambda>color.
     let txt = fst (AddNotEmpty txt ''Color'' color) in
     bind_panic (getDuplex attrs) (\<lambda>duplex.
     let txt = fst (AddNotEmpty txt ''Duplex'' duplex) in
     bind_panic (strSingle attrs [''printer-location'']) (\<lambda>location.
     let txt = Add txt ''note'' location;
         txt = Add txt ''qtotal'' ''1'';
         txt = fst (AddNotEmpty txt ''usb_MDL'' (index_map devid ''MDL''));
         txt = fst (AddNotEmpty txt ''usb_MFG'' (index_map devid ''MFG''));
         txt = fst (AddNotEmpty txt ''usb_CMD'' (index_map devid ''CMD'')) in
     bind_panic (strSingle attrs [''printer-make-and-model'']) (\<lambda>ty.
     let txt = fst (AddNotEmpty txt ''ty'' ty) in
     bind_panic (strBrackets attrs [''printer-make-and-model'']) (\<lambda>product.
     let txt = fst (AddNotEmpty txt ''product'' product) in
     bind_panic (strJoined attrs [''document-format-supported'']) (\<lambda>pdl.
     let txt = fst (AddNotEmpty txt ''pdl'' pdl);
         txt = Add txt ''txtvers'' ''1'' in
     Inr (dnssd_name, \<lparr>Type = ''_ipp._tcp'', Txt = txt\<rparr>))))))))))))))"

datatype error = Error string

type_synonym bytes = "nat list"

text \<open>
  \<open>IppService\<close> (ipp.go). Its three fallible calls into the libraries are parameters:
  \<open>Post\<close> is the outcome of \<open>c.Post\<close>, an error or a response, the response given
  as the outcome of \<open>ioutil.ReadAll\<close> on its body; \<open>DecodeBytes\<close> is
  \<open>msg.DecodeBytes\<close>, giving an error or the printer attributes of the decoded message.
  The result is (\<open>dnssd_name\<close>, \<open>info\<close>, \<open>err\<close>), the named results of the source,
  which a bare \<open>return\<close> leaves at their zero values unless assigned.
\<close>

definition IppService ::
  "error + (error + bytes) \<Rightarrow> (bytes \<Rightarrow> error + Attribute list) \<Rightarrow>
   panic + string \<times> DnsSdInfo \<times> error option" where
  "IppService Post DecodeBytes =
     (case Post of
        Inl err \<Rightarrow> Inr ('''', \<lparr>Type = '''', Txt = []\<rparr>, Some err)
      | Inr ReadAll \<Rightarrow>
          (case ReadAll of
             Inl err \<Rightarrow> Inr ('''', \<lparr>Type = '''', Txt = []\<rparr>, Some err)
           | Inr respData \<Rightarrow>
               (case DecodeBytes respData of
                  Inl err \<Rightarrow> Inr ('''', \<lparr>Type = '''', Txt = []\<rparr>, None)
                | Inr Printer \<Rightarrow>
                    bind_panic (Decode (newIppDecoder Printer)) (\<lambda>(dnssd_name, info).
                      Inr (dnssd_name, info, None)))))"

section \<open>The device (device.go)\<close>

text \<open>
  The parts a \<open>Device\<close> brings together are objects of other files of the repository.
  The model names each object (a transport and a listener by a number, a proxy by the
  listener and transport it was made from, a publisher by the state and services it was
  made from) and records, in the order they happen, the calls that acquire or release
  one: \<open>Acquired r\<close> is the step that returned \<open>r\<close> without an error
  (\<open>NewUsbTransport\<close>, \<open>HTTPListen\<close>, \<open>NewHTTPProxy\<close>, \<open>Publish\<close>);
  \<open>Released r\<close> is the call of \<open>Close()\<close> on a transport, listener or proxy and of
  \<open>Unpublish()\<close> on a publisher; \<open>TransportShutdown t\<close> is \<open>t.Shutdown(ctx)\<close>;
  \<open>Saved s\<close> is \<open>State.Save()\<close> with the state as it is saved. Logging is left out.
\<close>

record DevState =
  DNSSdName :: string
  DNSSdOverride :: string
  HTTPPort :: int

record DNSSdSvcInfo =
  SvcType :: string
  Port :: int
  SvcTxt :: "(string \<times> string) list"

record IppPrinterInfo =
  IppDNSSdName :: string
  IppSvcIndex :: int

datatype UsbTransport = Transport nat

datatype Listener = Listener nat

datatype HTTPProxy = NewHTTPProxy Listener UsbTransport

datatype DNSSdPublisher = NewDNSSdPublisher DevState "DNSSdSvcInfo list"

datatype resource =
    ResTransport UsbTransport
  | ResListener Listener
  | ResProxy HTTPProxy
  | ResPublisher DNSSdPublisher

datatype event =
    Acquired resource
  | Released resource
  | TransportShutdown UsbTransport
  | Saved DevState

text \<open>The fields of \<open>Device\<close> but its logger; a nil reference is \<open>None\<close>.\<close>

record Device =
  UsbAddr :: nat
  State :: "DevState option"
  HTTPClient :: "UsbTransport option"
  HTTPProxy :: "HTTPProxy option"
  UsbTransport :: "UsbTransport option"
  DNSSdPublisher :: "DNSSdPublisher option"

text \<open>
  What the rest of the program answers to one call of \<open>NewDevice\<close>: the outcome of
  \<open>NewUsbTransport\<close>, the state \<open>LoadDevState\<close> gives, the outcome of \<open>HTTPListen\<close>
  (with the state as the call leaves it), of \<open>IppService\<close> as device.go calls it (the
  services it has put in \<open>dnssdServices\<close>, \<open>ippinfo\<close> and \<open>err\<close>), the name
  \<open>info.DNSSdName()\<close>, \<open>EsclService\<close> (from the services and \<open>ippinfo\<close> to the
  services as it leaves them and \<open>err\<close>), \<open>Conf.DNSSdEnable\<close> and the outcome of
  \<open>Publish\<close>.
\<close>

record env =
  env_NewUsbTransport :: "error + UsbTransport"
  env_LoadDevState :: DevState
  env_HTTPListen :: "DevState \<Rightarrow> (error + Listener) \<times> DevState"
  env_IppService :: "DNSSdSvcInfo list \<times> IppPrinterInfo option \<times> error option"
  env_info_DNSSdName :: string
  env_EsclService ::
    "DNSSdSvcInfo list \<Rightarrow> IppPrinterInfo option \<Rightarrow> DNSSdSvcInfo list \<times> error option"
  env_DNSSdEnable :: bool
  env_Publish :: "DNSSdPublisher \<Rightarrow> error option"

text \<open>
  A method called through a reference: through nil it panics. The source makes each such
  call under a test of the reference, which the model keeps.
\<close>

definition deref :: "'r option \<Rightarrow> panic + 'r" where
  "deref ref = (case ref of None \<Rightarrow> Inl NilDereference | Some r \<Rightarrow> Inr r)"

definition call :: "'r option \<Rightarrow> ('r \<Rightarrow> event) \<Rightarrow> panic + event list" where
  "call ref ev = bind_panic (deref ref) (\<lambda>r. Inr [ev r])"

text \<open>Lines 87 to 92: the name of \<open>ippinfo\<close> when there is one, else the device's.\<close>

definition resolve_dnssdName :: "env \<Rightarrow> IppPrinterInfo option \<Rightarrow> string" where
  "resolve_dnssdName e ippinfo =
     (case ippinfo of Some i \<Rightarrow> IppDNSSdName i | None \<Rightarrow> env_info_DNSSdName e)"

text \<open>Lines 94 to 99: the update of the device state, if the name changed.\<close>

definition update_state :: "string \<Rightarrow> DevState \<Rightarrow> DevState \<times> event list" where
  "update_state dnssdName st =
     (if dnssdName \<noteq> DNSSdName st
      then (let st' = st\<lparr>DNSSdName := dnssdName, DNSSdOverride := dnssdName\<rparr>
            in (st', [Saved st']))
      else (st, []))"

text \<open>
  Lines 111 to 118: \<open>dnssdServices[ippinfo.IppSvcIndex]\<close> gets the field "Scan", "T"
  when \<open>err\<close> (of \<open>EsclService\<close>) is nil and "F" otherwise; an index outside the
  slice panics. (\<open>Txt.Add\<close> as in the first part, on the record of the service.)
\<close>

definition amend_scan ::
  "IppPrinterInfo option \<Rightarrow> error option \<Rightarrow> DNSSdSvcInfo list \<Rightarrow> panic + DNSSdSvcInfo list" where
  "amend_scan ippinfo err dnssdServices =
     (case ippinfo of
        None \<Rightarrow> Inr dnssdServices
      | Some i \<Rightarrow>
          if 0 \<le> IppSvcIndex i \<and> IppSvcIndex i < int (length dnssdServices)
          then (let k = nat (IppSvcIndex i); ippSvc = dnssdServices ! k
                in Inr (dnssdServices
                     [k := ippSvc\<lparr>SvcTxt :=
                        Add (SvcTxt ippSvc) ''Scan'' (if err = None then ''T'' else ''F'')\<rparr>]))
          else Inl IndexOutOfRange)"

text \<open>
  Modelled from the spec: \<open>dnssdServices.Add\<close> is a method of this repository's list
  of services, which is not among the source files. The spec has the set as an ordered
  sequence of descriptors, to which the web descriptor is appended.
\<close>

definition Services_Add :: "DNSSdSvcInfo list \<Rightarrow> DNSSdSvcInfo \<Rightarrow> DNSSdSvcInfo list" where
  "Services_Add dnssdServices svc = dnssdServices @ [svc]"

text \<open>
  Lines 74 to 121, from the IPP query to the web service: the state and the services as
  they are at line 121, and the calls made.
\<close>

definition NewDevice_services ::
  "env \<Rightarrow> DevState \<Rightarrow> panic + DevState \<times> DNSSdSvcInfo list \<times> event list" where
  "NewDevice_services e st =
     (case env_IppService e of
        (dnssdServices, ippinfo, ipp_err) \<Rightarrow>
          (case update_state (resolve_dnssdName e ippinfo) st of
             (st', evs) \<Rightarrow>
               (case env_EsclService e dnssdServices ippinfo of
                  (dnssdServices', err) \<Rightarrow>
                    bind_panic (amend_scan ippinfo err dnssdServices') (\<lambda>dnssdServices''.
                      Inr (st',
                           Services_Add dnssdServices''
                             \<lparr>SvcType = ''_http._tcp'', Port = HTTPPort st', SvcTxt = []\<rparr>,
                           evs)))))"

text \<open>
  The block at the label \<open>ERROR\<close>: the proxy, the transport and the listener are closed,
  in this order, each if its reference is not nil; no device is returned, and \<open>err\<close>.
\<close>

definition NewDevice_ERROR ::
  "Device \<Rightarrow> Listener option \<Rightarrow> error \<Rightarrow> event list \<Rightarrow>
   panic + Device option \<times> error option \<times> event list" where
  "NewDevice_ERROR dev listener err tr =
     bind_panic (if HTTPProxy dev \<noteq> None
                 then call (HTTPProxy dev) (\<lambda>p. Released (ResProxy p)) else Inr []) (\<lambda>ev1.
     bind_panic (if UsbTransport dev \<noteq> None
                 then call (UsbTransport dev) (\<lambda>t. Released (ResTransport t)) else Inr []) (\<lambda>ev2.
     bind_panic (if listener \<noteq> None
                 then call listener (\<lambda>l. Released (ResListener l)) else Inr []) (\<lambda>ev3.
     Inr (None, Some err, tr @ ev1 @ ev2 @ ev3))))"

text \<open>
  \<open>NewDevice\<close>: the device or nil, the error or nil, and the calls made. The results
  of \<open>NewUsbTransport\<close> and \<open>HTTPListen\<close> are an error or an object (with an error Go
  returns a nil object).
\<close>

definition NewDevice ::
  "env \<Rightarrow> nat \<Rightarrow> panic + Device option \<times> error option \<times> event list" where
  "NewDevice e addr =
     (let dev = \<lparr>UsbAddr = addr, State = None, HTTPClient = None, HTTPProxy = None,
                 UsbTransport = None, DNSSdPublisher = None\<rparr>
      in case env_NewUsbTransport e of
           Inl err \<Rightarrow> NewDevice_ERROR dev None err []
         | Inr t \<Rightarrow>
             (let dev = dev\<lparr>UsbTransport := Some t\<rparr>;
                  tr = [Acquired (ResTransport t)];
                  dev = dev\<lparr>State := Some (env_LoadDevState e), HTTPClient := Some t\<rparr>
              in case env_HTTPListen e (env_LoadDevState e) of
                   (Inl err, st) \<Rightarrow> NewDevice_ERROR (dev\<lparr>State := Some st\<rparr>) None err tr
                 | (Inr l, st) \<Rightarrow>
                     (let dev = dev\<lparr>State := Some st, HTTPProxy := Some (NewHTTPProxy l t)\<rparr>;
                          tr = tr @ [Acquired (ResListener l),
                                     Acquired (ResProxy (NewHTTPProxy l t))]
                      in bind_panic (NewDevice_services e st) (\<lambda>(st', dnssdServices, evs).
                           let dev = dev\<lparr>State := Some st'\<rparr>; tr = tr @ evs
                           in if env_DNSSdEnable e
                              then (let p = NewDNSSdPublisher st' dnssdServices;
                                        dev = dev\<lparr>DNSSdPublisher := Some p\<rparr>
                                    in case env_Publish e p of
                                         Some err \<Rightarrow> NewDevice_ERROR dev (Some l) err tr
                                       | None \<Rightarrow>
                                           Inr (Some dev, None, tr @ [Acquired (ResPublisher p)]))
                              else Inr (Some dev, None, tr)))))"

text \<open>
  \<open>Shutdown\<close>: the publisher and the proxy are released and their references set to
  nil; the transport is asked to shut down, \<open>shutdown\<close> being what
  \<open>UsbTransport.Shutdown(ctx)\<close> returns, and its reference stays.
\<close>

definition Shutdown ::
  "Device \<Rightarrow> (UsbTransport \<Rightarrow> error option) \<Rightarrow> panic + Device \<times> error option \<times> event list" where
  "Shutdown dev shutdown =
     bind_panic (if DNSSdPublisher dev \<noteq> None
                 then call (DNSSdPublisher dev) (\<lambda>p. Released (ResPublisher p)) else Inr []) (\<lambda>ev1.
     let dev = (if DNSSdPublisher dev \<noteq> None then dev\<lparr>DNSSdPublisher := None\<rparr> else dev) in
     bind_panic (if HTTPProxy dev \<noteq> None
                 then call (HTTPProxy dev) (\<lambda>p. Released (ResProxy p)) else Inr []) (\<lambda>ev2.
     let dev = (if HTTPProxy dev \<noteq> None then dev\<lparr>HTTPProxy := None\<rparr> else dev) in
     if UsbTransport dev \<noteq> None
     then bind_panic (deref (UsbTransport dev)) (\<lambda>t.
            Inr (dev, shutdown t, ev1 @ ev2 @ [TransportShutdown t]))
     else Inr (dev, None, ev1 @ ev2)))"

text \<open>\<open>Close\<close>: the publisher, the proxy and the transport, each as in \<open>Shutdown\<close>'s
  first two steps.\<close>

definition Close :: "Device \<Rightarrow> panic + Device \<times> event list" where
  "Close dev =
     bind_panic (if DNSSdPublisher dev \<noteq> None
                 then call (DNSSdPublisher dev) (\<lambda>p. Released (ResPublisher p)) else Inr []) (\<lambda>ev1.
     let dev = (if DNSSdPublisher dev \<noteq> None then dev\<lparr>DNSSdPublisher := None\<rparr> else dev) in
     bind_panic (if HTTPProxy dev \<noteq> None
                 then call (HTTPProxy dev) (\<lambda>p. Released (ResProxy p)) else Inr []) (\<lambda>ev2.
     let dev = (if HTTPProxy dev \<noteq> None then dev\<lparr>HTTPProxy := None\<rparr> else dev) in
     bind_panic (if UsbTransport dev \<noteq> None
                 then call (UsbTransport dev) (\<lambda>t. Released (ResTransport t)) else Inr []) (\<lambda>ev3.
     let dev = (if UsbTransport dev \<noteq> None then dev\<lparr>UsbTransport := None\<rparr> else dev) in
     Inr (dev, ev1 @ ev2 @ ev3))))"

text \<open>A sequence of calls of \<open>Shutdown\<close> and \<open>Close\<close> on one device, and its calls.\<close>

datatype lifecycle_call = CallShutdown "UsbTransport \<Rightarrow> error option" | CallClose

fun run_calls :: "lifecycle_call list \<Rightarrow> Device \<Rightarrow> panic + Device \<times> event list" where
  "run_calls [] dev = Inr (dev, [])"
| "run_calls (CallShutdown shutdown # cs) dev =
     bind_panic (Shutdown dev shutdown) (\<lambda>(dev', err, evs).
     bind_panic (run_calls cs dev') (\<lambda>(dev'', evs'). Inr (dev'', evs @ evs')))"
| "run_calls (CallClose # cs) dev =
     bind_panic (Close dev) (\<lambda>(dev', evs).
     bind_panic (run_calls cs dev') (\<lambda>(dev'', evs'). Inr (dev'', evs @ evs')))"

text \<open>The resources a sequence of calls acquired and released, in the order of the calls.\<close>

fun acquired :: "event list \<Rightarrow> resource list" where
  "acquired [] = []"
| "acquired (Acquired r # evs) = r # acquired evs"
| "acquired (_ # evs) = acquired evs"

fun released :: "event list \<Rightarrow> resource list" where
  "released [] = []"
| "released (Released r # evs) = r # released evs"
| "released (_ # evs) = released evs"

fun saved :: "event list \<Rightarrow> DevState list" where
  "saved [] = []"
| "saved (Saved s # evs) = s # saved evs"
| "saved (_ # evs) = saved evs"

section \<open>What the specification says, as definitions\<close>

text \<open>
  The definitions of this section follow the words of the specification, not the code;
  the theorems compare them with the code.
\<close>

subsection \<open>Device-identifier parsing\<close>

text \<open>
  "Each segment is split on the first colon into a key and value; segments without a
  colon are discarded."
\<close>

definition spec_key_value :: "string \<Rightarrow> (string \<times> string) option" where
  "spec_key_value seg =
     (if CHR '':'' \<in> set seg
      then Some (takeWhile (\<lambda>c. c \<noteq> CHR '':'') seg, tl (dropWhile (\<lambda>c. c \<noteq> CHR '':'') seg))
      else None)"

text \<open>"Later duplicate keys overwrite earlier ones": the last pair with the key.\<close>

definition spec_devid :: "string list \<Rightarrow> string \<Rightarrow> string option" where
  "spec_devid segs key =
     (case filter (\<lambda>kv. fst kv = key) (List.map_filter spec_key_value segs) of
        [] \<Rightarrow> None
      | kvs \<Rightarrow> Some (snd (last kvs)))"

subsection \<open>Paper-size classification\<close>

text \<open>
  The dimension of one entry: the sub-attribute of that name, read as "a single integer
  or a range: use the integer value or the range's upper bound".
\<close>

definition spec_dimension :: "string \<Rightarrow> Value \<Rightarrow> int option" where
  "spec_dimension name entry =
     (case entry of
        Collection attrs \<Rightarrow>
          (case find (\<lambda>a. Name a = name) attrs of
             None \<Rightarrow> None
           | Some a \<Rightarrow>
               (case Values a of
                  [] \<Rightarrow> None
                | v0 # _ \<Rightarrow>
                    (case snd v0 of
                       Integer n \<Rightarrow> Some n
                     | Range lo up \<Rightarrow> Some up
                     | _ \<Rightarrow> None)))
      | _ \<Rightarrow> None)"

text \<open>
  "The maximum seen across all entries", zero when nothing was seen ("either maximum is
  zero (attribute absent or empty)").
\<close>

definition spec_max :: "int option list \<Rightarrow> int" where
  "spec_max ds = Max (insert 0 (\<Union>d\<in>set ds. set_option d))"

text \<open>The maximum of a start value and the dimensions seen.\<close>

definition run_max :: "int \<Rightarrow> int option list \<Rightarrow> int" where
  "run_max m ds = Max (insert m (\<Union>d\<in>set ds. set_option d))"

text \<open>
  The table of thresholds, "checked in that order (first match wins)"; the first
  component says whether the row's comparison is strict.
\<close>

definition spec_table :: "(bool \<times> int \<times> int \<times> string) list" where
  "spec_table =
     [(True, 43200, 55900, ''>isoC-A2''),
      (False, 43200, 55900, ''isoC-A2''),
      (False, 27900, 43200, ''tabloid-A3''),
      (False, 21600, 35400, ''legal-A4'')]"

fun spec_row_matches :: "int \<Rightarrow> int \<Rightarrow> bool \<times> int \<times> int \<times> string \<Rightarrow> bool" where
  "spec_row_matches x y (strict, tx, ty, name) =
     (if strict then x > tx \<and> y > ty else x \<ge> tx \<and> y \<ge> ty)"

definition spec_classify :: "int \<Rightarrow> int \<Rightarrow> string" where
  "spec_classify x y =
     (case find (spec_row_matches x y) spec_table of
        Some (strict, tx, ty, name) \<Rightarrow> name
      | None \<Rightarrow> ''<legal-A4'')"

text \<open>The published PaperMax; \<open>None\<close> is "the field is omitted".\<close>

definition spec_PaperMax :: "ippAttrs \<Rightarrow> string option" where
  "spec_PaperMax attrs =
     (case attrs ''media-size-supported'' of
        None \<Rightarrow> None
      | Some vals \<Rightarrow>
          (case vals of
             [] \<Rightarrow> None
           | v0 # _ \<Rightarrow>
               if Type_of (snd v0) \<noteq> TypeCollection then None
               else (let x = spec_max (map (\<lambda>v. spec_dimension ''x-dimension'' (snd v)) vals);
                         y = spec_max (map (\<lambda>v. spec_dimension ''y-dimension'' (snd v)) vals)
                     in if x = 0 \<or> y = 0 then None else Some (spec_classify x y))))"

text \<open>
  The stores on which \<open>getPaperMax\<close> has a value: "media-size-supported", when it is
  there, has a first value, and when that is a collection all its values are.
\<close>

definition media_ok :: "ippAttrs \<Rightarrow> bool" where
  "media_ok attrs =
     (case attrs ''media-size-supported'' of
        None \<Rightarrow> True
      | Some vals \<Rightarrow>
          (case vals of
             [] \<Rightarrow> False
           | v0 # vs \<Rightarrow>
               Type_of (snd v0) = TypeCollection \<longrightarrow>
               (\<forall>v \<in> set vs. Type_of (snd v) = TypeCollection)))"

subsection \<open>Name resolution and typed lookup\<close>

text \<open>"First attribute present (any value) wins": the first of the names in the store.\<close>

definition spec_first_present :: "ippAttrs \<Rightarrow> string list \<Rightarrow> string option" where
  "spec_first_present attrs names = find (\<lambda>name. attrs name \<noteq> None) names"

text \<open>
  The typed lookup admits a name: it is in the store and its first value has the type
  asked for.
\<close>

definition admits :: "ippAttrs \<Rightarrow> Type \<Rightarrow> string \<Rightarrow> bool" where
  "admits attrs t name =
     (case attrs name of
        None \<Rightarrow> False
      | Some v \<Rightarrow> (case v of [] \<Rightarrow> False | v0 # _ \<Rightarrow> Type_of (snd v0) = t))"

text \<open>
  A store whose attributes are homogeneously typed: every value of an attribute has the
  type of the attribute's first value.
\<close>

definition homogeneous :: "ippAttrs \<Rightarrow> bool" where
  "homogeneous attrs =
     (\<forall>name vals. attrs name = Some vals \<longrightarrow>
        (\<forall>v \<in> set vals. Type_of (snd v) = Type_of (snd (hd vals))))"

subsection \<open>The device\<close>

text \<open>The resources a device holds a reference to.\<close>

definition live :: "Device \<Rightarrow> resource set" where
  "live dev =
     (case DNSSdPublisher dev of None \<Rightarrow> {} | Some p \<Rightarrow> {ResPublisher p}) \<union>
     (case HTTPProxy dev of None \<Rightarrow> {} | Some p \<Rightarrow> {ResProxy p}) \<union>
     (case UsbTransport dev of None \<Rightarrow> {} | Some t \<Rightarrow> {ResTransport t})"

text \<open>
  The index that \<open>ippinfo\<close> records, when there is an \<open>ippinfo\<close>, is an index of the
  services as \<open>EsclService\<close> leaves them: the print descriptor it was recorded for is
  there.
\<close>

definition scan_index_ok :: "env \<Rightarrow> bool" where
  "scan_index_ok e =
     (case env_IppService e of
        (dnssdServices, ippinfo, ipp_err) \<Rightarrow>
          (case ippinfo of
             None \<Rightarrow> True
           | Some i \<Rightarrow>
               0 \<le> IppSvcIndex i \<and>
               IppSvcIndex i < int (length (fst (env_EsclService e dnssdServices ippinfo)))))"

section \<open>Example inputs\<close>

text \<open>A store with one media size, of the given dimensions.\<close>

definition media :: "int \<Rightarrow> int \<Rightarrow> ippAttrs" where
  "media x y =
     [''media-size-supported'' \<mapsto>
        [(0, Collection [Attribute ''x-dimension'' [(0, Integer x)],
                         Attribute ''y-dimension'' [(0, Integer y)]])]]"

text \<open>
  A store whose "media-size-supported" has a collection and then an integer, and one with
  two media sizes, the widest first and the longest, given by a range, second.
\<close>

definition media_mixed :: ippAttrs where
  "media_mixed =
     [''media-size-supported'' \<mapsto>
        [(0, Collection [Attribute ''x-dimension'' [(0, Integer 21600)],
                         Attribute ''y-dimension'' [(0, Integer 35400)]]),
         (0, Integer 5)]]"

definition media_two :: ippAttrs where
  "media_two =
     [''media-size-supported'' \<mapsto>
        [(0, Collection [Attribute ''x-dimension'' [(0, Integer 43200)],
                         Attribute ''y-dimension'' [(0, Integer 29700)]]),
         (0, Collection [Attribute ''y-dimension'' [(0, Range 27940 55900)],
                         Attribute ''x-dimension'' [(0, Range 10000 21590)]])]]"

text \<open>The printer attributes of a response that has all that \<open>Decode\<close> reads.\<close>

definition printer0 :: "Attribute list" where
  "printer0 =
     [Attribute ''printer-make-and-model'' [(0, String ''Acme X1'')],
      Attribute ''printer-info'' [(0, String ''Office printer'')],
      Attribute ''printer-device-id'' [(0, String ''MFG:Acme;MDL:X1;CMD:PCL,URF;URF:W8'')],
      Attribute ''mopria-certified'' [(0, String ''1.3'')],
      Attribute ''printer-uuid'' [(0, String ''urn:uuid:1234'')],
      Attribute ''printer-location'' [(0, String '''')],
      Attribute ''color-supported'' [(0, Boolean True)],
      Attribute ''sides-supported'' [(0, String ''one-sided''), (0, String ''two-sided-long-edge'')],
      Attribute ''document-format-supported'' [(0, String ''application/pdf''), (0, String ''image/urf'')],
      Attribute ''media-size-supported''
        [(0, Collection [Attribute ''x-dimension'' [(0, Integer 21000)],
                         Attribute ''y-dimension'' [(0, Integer 29700)]]),
         (0, Collection [Attribute ''x-dimension'' [(0, Integer 21590)],
                         Attribute ''y-dimension'' [(0, Range 27940 35560)]])]]"


text \<open>
  A device whose IPP query gives a print descriptor at index 0 and the name the state
  already has, whose eSCL query fails, and whose \<open>Publish\<close> fails; and variants of it.
\<close>

definition state0 :: DevState where
  "state0 = \<lparr>DNSSdName = ''Acme X1'', DNSSdOverride = '''', HTTPPort = 60000\<rparr>"

definition env0 :: env where
  "env0 = \<lparr>env_NewUsbTransport = Inr (Transport 1),
           env_LoadDevState = state0,
           env_HTTPListen = (\<lambda>st. (Inr (Listener 2), st)),
           env_IppService =
             ([\<lparr>SvcType = ''_ipp._tcp'', Port = 60000, SvcTxt = [(''air'', ''none'')]\<rparr>],
              Some \<lparr>IppDNSSdName = ''Acme X1'', IppSvcIndex = 0\<rparr>, None),
           env_info_DNSSdName = ''Acme'',
           env_EsclService = (\<lambda>svcs ippinfo. (svcs, Some (Error ''no scanner''))),
           env_DNSSdEnable = True,
           env_Publish = (\<lambda>p. Some (Error ''publish failed''))\<rparr>"

definition env_no_transport :: env where
  "env_no_transport = env0\<lparr>env_NewUsbTransport := Inl (Error ''no device'')\<rparr>"

definition env_no_listener :: env where
  "env_no_listener = env0\<lparr>env_HTTPListen := (\<lambda>st. (Inl (Error ''port in use''), st))\<rparr>"

definition env_renamed :: env where
  "env_renamed = env0\<lparr>env_LoadDevState := state0\<lparr>DNSSdName := ''Old name''\<rparr>\<rparr>"

definition services0 :: "DNSSdSvcInfo list" where
  "services0 =
     [\<lparr>SvcType = ''_ipp._tcp'', Port = 60000,
       SvcTxt = [(''air'', ''none''), (''Scan'', ''F'')]\<rparr>,
      \<lparr>SvcType = ''_http._tcp'', Port = 60000, SvcTxt = []\<rparr>]"

definition dev0 :: Device where
  "dev0 = \<lparr>UsbAddr = 7, State = Some state0, HTTPClient = Some (Transport 1),
           HTTPProxy = Some (NewHTTPProxy (Listener 2) (Transport 1)),
           UsbTransport = Some (Transport 1),
           DNSSdPublisher = Some (NewDNSSdPublisher state0 services0)\<rparr>"

section \<open>Basic facts\<close>

lemma bind_panic_Inr [simp]: "bind_panic (Inr x) f = f x"
  by (simp add: bind_panic_def)

lemma bind_panic_Inl [simp]: "bind_panic (Inl p) f = Inl p"
  by (simp add: bind_panic_def)

lemma bind_panic_eq_Inr:
  "bind_panic m f = Inr y \<longleftrightarrow> (\<exists>x. m = Inr x \<and> f x = Inr y)"
  by (cases m) auto

lemma deref_Some [simp]: "deref (Some r) = Inr r"
  by (simp add: deref_def)

lemma call_Some [simp]: "call (Some r) ev = Inr [ev r]"
  by (simp add: call_def)

lemma Services_Add_append [simp]: "Services_Add dnssdServices svc = dnssdServices @ [svc]"
  by (simp add: Services_Add_def)

lemma released_append [simp]: "released (xs @ ys) = released xs @ released ys"
  by (induction xs rule: released.induct) auto

lemma acquired_append [simp]: "acquired (xs @ ys) = acquired xs @ acquired ys"
  by (induction xs rule: acquired.induct) auto

lemma saved_append [simp]: "saved (xs @ ys) = saved xs @ saved ys"
  by (induction xs rule: saved.induct) auto

section \<open>The attribute store keeps the first occurrence\<close>

lemma newIppDecoder_Cons:
  "newIppDecoder (a # as) = (newIppDecoder as)(Name a \<mapsto> Values a)"
  by (simp add: newIppDecoder_def)

text \<open>
  C4. For every raw attribute sequence and every name, the store built from the sequence
  maps the name to the values of its first occurrence in the sequence (and to nothing
  when the name does not occur): later occurrences of the same name are overwritten by
  earlier ones.
\<close>

theorem newIppDecoder_first_wins:
  "newIppDecoder Printer name =
     map_option Values (find (\<lambda>attr. Name attr = name) Printer)"
  by (induction Printer) (auto simp: newIppDecoder_Cons, simp add: newIppDecoder_def)

text \<open>The spec's example: from [(A, "1"), (A, "2")] the lookup of A gives "1".\<close>

theorem newIppDecoder_first_wins_witness:
  "newIppDecoder [Attribute ''A'' [(0, String ''1'')], Attribute ''A'' [(0, String ''2'')]] ''A''
     = Some [(0, String ''1'')]"
  using newIppDecoder_first_wins
    [of "[Attribute ''A'' [(0, String ''1'')], Attribute ''A'' [(0, String ''2'')]]" "''A''"]
  by simp

section \<open>Device-identifier parsing\<close>

lemma Split_nonempty: "Split s sep \<noteq> []"
  by (induction s) (auto split: list.splits)

lemma Join_Cons: "xs \<noteq> [] \<Longrightarrow> Join (x # xs) sep = x @ sep @ Join xs sep"
  by (cases xs) auto

lemma Split_Join: "Join (Split s sep) [sep] = s"
proof (induction s)
  case Nil
  show ?case by simp
next
  case (Cons c cs)
  show ?case
  proof (cases "c = sep")
    case True
    then show ?thesis using Cons Split_nonempty[of cs sep] by (simp add: Join_Cons)
  next
    case False
    obtain p ps where sp: "Split cs sep = p # ps"
      using Split_nonempty[of cs sep] by (cases "Split cs sep") auto
    show ?thesis using False Cons sp by (cases ps) auto
  qed
qed

lemma Split_no_sep: "seg \<in> set (Split s sep) \<Longrightarrow> sep \<notin> set seg"
  by (induction s arbitrary: seg) (auto split: list.splits if_splits)

lemma spec_key_value_iff:
  "spec_key_value seg = Some (k, v) \<longleftrightarrow> seg = k @ '':'' @ v \<and> CHR '':'' \<notin> set k"
proof
  assume "spec_key_value seg = Some (k, v)"
  then have c: "CHR '':'' \<in> set seg" and k: "k = takeWhile (\<lambda>c. c \<noteq> CHR '':'') seg"
    and v: "v = tl (dropWhile (\<lambda>c. c \<noteq> CHR '':'') seg)"
    by (auto simp: spec_key_value_def split: if_splits)
  from c have "dropWhile (\<lambda>c. c \<noteq> CHR '':'') seg \<noteq> []" by auto
  moreover have "hd (dropWhile (\<lambda>c. c \<noteq> CHR '':'') seg) = CHR '':''"
    using calculation hd_dropWhile[of "\<lambda>c. c \<noteq> CHR '':''" seg] by auto
  ultimately have "dropWhile (\<lambda>c. c \<noteq> CHR '':'') seg = CHR '':'' # v" using v
    by (cases "dropWhile (\<lambda>c. c \<noteq> CHR '':'') seg") auto
  then have "seg = k @ '':'' @ v"
    using k takeWhile_dropWhile_id[of "\<lambda>c. c \<noteq> CHR '':''" seg] by simp
  moreover have "CHR '':'' \<notin> set k" using k by (auto dest: set_takeWhileD)
  ultimately show "seg = k @ '':'' @ v \<and> CHR '':'' \<notin> set k" by simp
next
  assume a: "seg = k @ '':'' @ v \<and> CHR '':'' \<notin> set k"
  then have "takeWhile (\<lambda>c. c \<noteq> CHR '':'') seg = k"
    by (auto simp: takeWhile_tail takeWhile_eq_all_conv)
  moreover have "dropWhile (\<lambda>c. c \<noteq> CHR '':'') seg = '':'' @ v"
    using a by (auto simp: dropWhile_append3)
  ultimately show "spec_key_value seg = Some (k, v)" using a by (simp add: spec_key_value_def)
qed

lemma devid_step:
  "(case SplitN2 seg CHR '':'' of [k, v] \<Rightarrow> devid(k \<mapsto> v) | _ \<Rightarrow> devid) =
   (case spec_key_value seg of None \<Rightarrow> devid | Some (k, v) \<Rightarrow> devid(k \<mapsto> v))"
  by (simp add: SplitN2_def spec_key_value_def)

lemma fold_key_value:
  "fold (\<lambda>id devid. case spec_key_value id of None \<Rightarrow> devid | Some (k, v) \<Rightarrow> devid(k \<mapsto> v))
        segs m key =
   (case filter (\<lambda>kv. fst kv = key) (List.map_filter spec_key_value segs) of
      [] \<Rightarrow> m key
    | kvs \<Rightarrow> Some (snd (last kvs)))"
  by (induction segs arbitrary: m)
     (auto simp: List.map_filter_simps split: option.splits list.splits)

lemma fold_devid:
  "fold (\<lambda>id devid. case SplitN2 id CHR '':'' of [k, v] \<Rightarrow> devid(k \<mapsto> v) | _ \<Rightarrow> devid)
        segs m key =
   (case filter (\<lambda>kv. fst kv = key) (List.map_filter spec_key_value segs) of
      [] \<Rightarrow> m key
    | kvs \<Rightarrow> Some (snd (last kvs)))"
  by (simp only: devid_step fold_key_value)

text \<open>
  C5. For every device-identifier string: its segments are the pieces between its
  semicolons (joined again with semicolons they give the string, and none contains a
  semicolon); a segment gives the pair (key, value) exactly when it is the key, a colon
  and the value with no colon in the key, so it is split at its first colon, and a
  segment with no colon gives no pair; and the parsed identifier maps a key to the value
  of the last segment with that key, and to nothing when no segment has it.
\<close>

theorem parse_devid_last_wins:
  "Join (Split s CHR '';'') '';'' = s \<and>
   (\<forall>seg \<in> set (Split s CHR '';''). CHR '';'' \<notin> set seg) \<and>
   (\<forall>seg k v. spec_key_value seg = Some (k, v) \<longleftrightarrow> seg = k @ '':'' @ v \<and> CHR '':'' \<notin> set k) \<and>
   (\<forall>seg. spec_key_value seg = None \<longleftrightarrow> CHR '':'' \<notin> set seg) \<and>
   parse_devid s key = spec_devid (Split s CHR '';'') key"
proof (intro conjI)
  show "Join (Split s CHR '';'') '';'' = s"
    using Split_Join[of s "CHR '';''"] by simp
  show "\<forall>seg \<in> set (Split s CHR '';''). CHR '';'' \<notin> set seg"
    using Split_no_sep by blast
  show "\<forall>seg k v. spec_key_value seg = Some (k, v) \<longleftrightarrow> seg = k @ '':'' @ v \<and> CHR '':'' \<notin> set k"
    using spec_key_value_iff by blast
  show "\<forall>seg. spec_key_value seg = None \<longleftrightarrow> CHR '':'' \<notin> set seg"
    by (simp add: spec_key_value_def)
  show "parse_devid s key = spec_devid (Split s CHR '';'') key"
    using fold_devid[of "Split s CHR '';''" Map.empty key]
    by (auto simp: parse_devid_def spec_devid_def split: list.splits)
qed

text \<open>
  The spec's examples: "MFG:Acme;MDL:Foo;GARBAGE;CMD:PCL" gives MFG, MDL and CMD and
  nothing for GARBAGE, and "MFG:A;MFG:B" gives B for MFG.
\<close>

theorem parse_devid_last_wins_witness:
  "parse_devid ''MFG:Acme;MDL:Foo;GARBAGE;CMD:PCL'' ''MFG'' = Some ''Acme'' \<and>
   parse_devid ''MFG:Acme;MDL:Foo;GARBAGE;CMD:PCL'' ''MDL'' = Some ''Foo'' \<and>
   parse_devid ''MFG:Acme;MDL:Foo;GARBAGE;CMD:PCL'' ''CMD'' = Some ''PCL'' \<and>
   parse_devid ''MFG:Acme;MDL:Foo;GARBAGE;CMD:PCL'' ''GARBAGE'' = None \<and>
   parse_devid ''MFG:Acme;MDL:Foo;GARBAGE;CMD:PCL'' =
     [''MFG'' \<mapsto> ''Acme'', ''MDL'' \<mapsto> ''Foo'', ''CMD'' \<mapsto> ''PCL''] \<and>
   parse_devid ''MFG:A;MFG:B'' ''MFG'' = Some ''B'' \<and>
   parse_devid ''MFG:A;MFG:B'' = [''MFG'' \<mapsto> ''B'']"
proof -
  have s1: "Split ''MFG:Acme;MDL:Foo;GARBAGE;CMD:PCL'' CHR '';'' =
              [''MFG:Acme'', ''MDL:Foo'', ''GARBAGE'', ''CMD:PCL'']"
    by simp
  have s2: "Split ''MFG:A;MFG:B'' CHR '';'' = [''MFG:A'', ''MFG:B'']"
    by simp
  have kv: "spec_key_value ''MFG:Acme'' = Some (''MFG'', ''Acme'')"
           "spec_key_value ''MDL:Foo'' = Some (''MDL'', ''Foo'')"
           "spec_key_value ''GARBAGE'' = None"
           "spec_key_value ''CMD:PCL'' = Some (''CMD'', ''PCL'')"
           "spec_key_value ''MFG:A'' = Some (''MFG'', ''A'')"
           "spec_key_value ''MFG:B'' = Some (''MFG'', ''B'')"
    by (simp_all add: spec_key_value_def)
  have "parse_devid ''MFG:Acme;MDL:Foo;GARBAGE;CMD:PCL'' ''MFG'' = Some ''Acme''"
       "parse_devid ''MFG:Acme;MDL:Foo;GARBAGE;CMD:PCL'' ''MDL'' = Some ''Foo''"
       "parse_devid ''MFG:Acme;MDL:Foo;GARBAGE;CMD:PCL'' ''CMD'' = Some ''PCL''"
       "parse_devid ''MFG:Acme;MDL:Foo;GARBAGE;CMD:PCL'' ''GARBAGE'' = None"
    using parse_devid_last_wins[of "''MFG:Acme;MDL:Foo;GARBAGE;CMD:PCL''" "''MFG''"]
          parse_devid_last_wins[of "''MFG:Acme;MDL:Foo;GARBAGE;CMD:PCL''" "''MDL''"]
          parse_devid_last_wins[of "''MFG:Acme;MDL:Foo;GARBAGE;CMD:PCL''" "''CMD''"]
          parse_devid_last_wins[of "''MFG:Acme;MDL:Foo;GARBAGE;CMD:PCL''" "''GARBAGE''"]
    by (simp_all only: s1 spec_devid_def List.map_filter_simps kv)
       simp_all
  moreover have "parse_devid ''MFG:A;MFG:B'' ''MFG'' = Some ''B''"
    using parse_devid_last_wins[of "''MFG:A;MFG:B''" "''MFG''"]
    by (simp only: s2 spec_devid_def List.map_filter_simps kv) simp
  moreover have "parse_devid ''MFG:Acme;MDL:Foo;GARBAGE;CMD:PCL'' =
     [''MFG'' \<mapsto> ''Acme'', ''MDL'' \<mapsto> ''Foo'', ''CMD'' \<mapsto> ''PCL'']"
    by (simp add: parse_devid_def SplitN2_def)
  moreover have "parse_devid ''MFG:A;MFG:B'' = [''MFG'' \<mapsto> ''B'']"
    by (simp add: parse_devid_def SplitN2_def)
  ultimately show ?thesis by blast
qed

section \<open>Paper-size classification\<close>

lemma find_dims_Nil: "find_dims [] = (Attribute '''' [], Attribute '''' [])"
  by (simp add: find_dims_def)

lemma find_dims_Cons:
  "find_dims (a # as) =
     (case find_dims as of
        (x_dim_attr, y_dim_attr) \<Rightarrow>
          if Name a = ''x-dimension'' then (a, y_dim_attr)
          else if Name a = ''y-dimension'' then (x_dim_attr, a)
          else (x_dim_attr, y_dim_attr))"
  by (simp add: find_dims_def)

lemma find_dims_find:
  "find_dims attrs =
     (case find (\<lambda>a. Name a = ''x-dimension'') attrs of None \<Rightarrow> Attribute '''' [] | Some a \<Rightarrow> a,
      case find (\<lambda>a. Name a = ''y-dimension'') attrs of None \<Rightarrow> Attribute '''' [] | Some a \<Rightarrow> a)"
  by (induction attrs) (auto simp: find_dims_Nil find_dims_Cons)

lemma dim_max_x:
  "dim_max (fst (find_dims attrs)) m =
     (case spec_dimension ''x-dimension'' (Collection attrs) of None \<Rightarrow> m | Some n \<Rightarrow> max m n)"
  by (auto simp: find_dims_find dim_max_def spec_dimension_def
           split: option.splits list.splits Value.splits)

lemma dim_max_y:
  "dim_max (snd (find_dims attrs)) m =
     (case spec_dimension ''y-dimension'' (Collection attrs) of None \<Rightarrow> m | Some n \<Rightarrow> max m n)"
  by (auto simp: find_dims_find dim_max_def spec_dimension_def
           split: option.splits list.splits Value.splits)

lemma Max_insert_max:
  "finite S \<Longrightarrow> Max (insert (max a b) S) = Max (insert a (insert b S))" for a b :: int
  by (cases "S = {}") (auto simp: max.assoc)

lemma run_max_Nil: "run_max m [] = m"
  by (simp add: run_max_def)

lemma run_max_Cons:
  "run_max m (d # ds) = run_max (case d of None \<Rightarrow> m | Some n \<Rightarrow> max m n) ds"
  by (cases d) (simp_all add: run_max_def Max_insert_max insert_commute)

lemma spec_max_run: "spec_max ds = run_max 0 ds"
  by (simp add: spec_max_def run_max_def)

lemma getPaperMax_loop_ok:
  "\<forall>v \<in> set vs. Type_of v = TypeCollection \<Longrightarrow>
   getPaperMax_loop vs (x, y) =
     Inr (run_max x (map (spec_dimension ''x-dimension'') vs),
          run_max y (map (spec_dimension ''y-dimension'') vs))"
proof (induction vs arbitrary: x y)
  case Nil
  show ?case by (simp add: run_max_Nil)
next
  case (Cons v vs)
  then obtain attrs where v: "v = Collection attrs" by (cases v) auto
  obtain xa ya where fd: "find_dims attrs = (xa, ya)" by (cases "find_dims attrs")
  have x: "dim_max xa x =
             (case spec_dimension ''x-dimension'' v of None \<Rightarrow> x | Some n \<Rightarrow> max x n)"
    using dim_max_x[of attrs x] fd v by simp
  have y: "dim_max ya y =
             (case spec_dimension ''y-dimension'' v of None \<Rightarrow> y | Some n \<Rightarrow> max y n)"
    using dim_max_y[of attrs y] fd v by simp
  have "getPaperMax_loop (v # vs) (x, y) = getPaperMax_loop vs (dim_max xa x, dim_max ya y)"
    using v fd by simp
  also have "\<dots> = Inr (run_max (dim_max xa x) (map (spec_dimension ''x-dimension'') vs),
                       run_max (dim_max ya y) (map (spec_dimension ''y-dimension'') vs))"
    using Cons by simp
  finally show ?case by (simp add: run_max_Cons x y)
qed

lemma getPaperMax_loop_panic:
  "\<exists>v \<in> set vs. Type_of v \<noteq> TypeCollection \<Longrightarrow>
   getPaperMax_loop vs (x, y) = Inl TypeAssertion"
proof (induction vs arbitrary: x y)
  case Nil
  then show ?case by simp
next
  case (Cons v vs)
  show ?case
  proof (cases v)
    case (Collection attrs)
    then have "\<exists>v \<in> set vs. Type_of v \<noteq> TypeCollection" using Cons.prems by auto
    then show ?thesis using Collection Cons.IH by (simp split: prod.splits)
  qed simp_all
qed

lemma classify_spec:
  "classify x y = (if x = 0 \<or> y = 0 then '''' else spec_classify x y)"
  by (simp add: classify_def spec_classify_def spec_table_def isoC_a2_x_def isoC_a2_y_def
        tabloid_a3_x_def tabloid_a3_y_def legal_a4_x_def legal_a4_y_def)

lemma spec_classify_nonempty: "spec_classify x y \<noteq> ''''"
  by (simp add: spec_classify_def spec_table_def)

lemma getPaperMax_ok:
  assumes "media_ok attrs"
  shows "getPaperMax attrs = Inr (case spec_PaperMax attrs of None \<Rightarrow> '''' | Some s \<Rightarrow> s)"
proof (cases "attrs ''media-size-supported''")
  case None
  then show ?thesis by (simp add: getPaperMax_def spec_PaperMax_def)
next
  case (Some vals)
  then obtain v0 vs where vals: "vals = v0 # vs" using assms
    by (cases vals) (auto simp: media_ok_def)
  show ?thesis
  proof (cases "Type_of (snd v0) = TypeCollection")
    case False
    then show ?thesis using Some vals
      by (simp add: getPaperMax_def spec_PaperMax_def)
  next
    case True
    then have all: "\<forall>v \<in> set (map snd vals). Type_of v = TypeCollection"
      using assms Some vals by (auto simp: media_ok_def)
    have ga: "getAttr attrs TypeCollection [''media-size-supported''] = Inr (Some (map snd vals))"
      using Some vals True by simp
    show ?thesis
      using getPaperMax_loop_ok[OF all, of 0 0] Some vals True
      by (simp add: getPaperMax_def ga spec_PaperMax_def classify_spec
            spec_max_run comp_def Let_def del: getAttr.simps)
  qed
qed

lemma getPaperMax_panic:
  assumes "\<not> media_ok attrs"
  shows "\<exists>p. getPaperMax attrs = Inl p"
proof -
  obtain vals where Some: "attrs ''media-size-supported'' = Some vals"
    using assms by (cases "attrs ''media-size-supported''") (auto simp: media_ok_def)
  show ?thesis
  proof (cases vals)
    case Nil
    then show ?thesis using Some by (simp add: getPaperMax_def)
  next
    case (Cons v0 vs)
    then have t: "Type_of (snd v0) = TypeCollection" and
      ex: "\<exists>v \<in> set (map snd vals). Type_of v \<noteq> TypeCollection"
      using assms Some by (auto simp: media_ok_def)
    have ga: "getAttr attrs TypeCollection [''media-size-supported''] = Inr (Some (map snd vals))"
      using Some Cons t by simp
    show ?thesis using getPaperMax_loop_panic[OF ex, of 0 0]
      by (simp add: getPaperMax_def ga del: getAttr.simps)
  qed
qed

text \<open>
  C3, as amended. For every attribute store in which "media-size-supported", when it is
  present, has a first value and, when that value is a collection, only collections as
  values, \<open>getPaperMax\<close> gives the value the specification describes: over all entries
  of the collection-typed "media-size-supported" attribute the maximum x-dimension and
  the maximum y-dimension are taken independently, each dimension read as an integer or
  as the upper bound of a range; the result is empty, and \<open>Decode\<close>'s \<open>AddNotEmpty\<close>
  writes no PaperMax field, when either maximum is zero or the attribute is absent;
  otherwise the field is the first matching row of the table in its order. On every
  other store \<open>getPaperMax\<close> panics and there is no value.
\<close>

theorem getPaperMax_classification:
  "(media_ok attrs \<longrightarrow>
      getPaperMax attrs = Inr (case spec_PaperMax attrs of None \<Rightarrow> '''' | Some s \<Rightarrow> s) \<and>
      fst (AddNotEmpty txt ''PaperMax''
             (case spec_PaperMax attrs of None \<Rightarrow> '''' | Some s \<Rightarrow> s)) =
        (case spec_PaperMax attrs of None \<Rightarrow> txt | Some s \<Rightarrow> txt @ [(''PaperMax'', s)])) \<and>
   (\<not> media_ok attrs \<longrightarrow> (\<exists>p. getPaperMax attrs = Inl p))"
proof -
  have "spec_PaperMax attrs \<noteq> Some ''''"
    by (auto simp: spec_PaperMax_def Let_def spec_classify_nonempty
             split: option.splits list.splits)
  then show ?thesis
    using getPaperMax_ok[of attrs] getPaperMax_panic[of attrs]
    by (auto simp: AddNotEmpty_def Add_def split: option.splits)
qed

lemma spec_PaperMax_media:
  "spec_PaperMax (media x y) = (if x \<le> 0 \<or> y \<le> 0 then None else Some (spec_classify x y))"
  by (auto simp: spec_PaperMax_def media_def spec_max_def spec_dimension_def Let_def)

lemma media_ok_media: "media_ok (media x y)"
  by (simp add: media_ok_def media_def)

lemma media_two_facts:
  "media_ok media_two" "spec_PaperMax media_two = Some ''isoC-A2''"
  by (simp_all add: media_two_def media_ok_def spec_PaperMax_def spec_max_def spec_dimension_def
        spec_classify_def spec_table_def)

text \<open>
  The spec's examples: (21600, 35400) is "legal-A4", (21599, 35400) is "<legal-A4",
  (43201, 55901) is ">isoC-A2", and for (0, 0) or no attribute the result is empty. With
  two entries, 43200 by 29700 and a range up to 21590 by a range up to 55900, the maxima
  43200 and 55900 come from different entries and the result is "isoC-A2".
\<close>

theorem getPaperMax_classification_witness:
  "getPaperMax (media 21600 35400) = Inr ''legal-A4'' \<and>
   getPaperMax (media 21599 35400) = Inr ''<legal-A4'' \<and>
   getPaperMax (media 43201 55901) = Inr ''>isoC-A2'' \<and>
   getPaperMax (media 43200 55901) = Inr ''isoC-A2'' \<and>
   getPaperMax (media 0 0) = Inr '''' \<and>
   getPaperMax Map.empty = Inr '''' \<and>
   getPaperMax media_two = Inr ''isoC-A2''"
proof -
  have e: "media_ok Map.empty" "spec_PaperMax Map.empty = None"
    by (simp_all add: media_ok_def spec_PaperMax_def)
  have c: "spec_classify 21600 35400 = ''legal-A4''"
          "spec_classify 21599 35400 = ''<legal-A4''"
          "spec_classify 43201 55901 = ''>isoC-A2''"
          "spec_classify 43200 55901 = ''isoC-A2''"
    by (simp_all add: spec_classify_def spec_table_def)
  show ?thesis
    using getPaperMax_classification[of "media 21600 35400" "[]"]
          getPaperMax_classification[of "media 21599 35400" "[]"]
          getPaperMax_classification[of "media 43201 55901" "[]"]
          getPaperMax_classification[of "media 43200 55901" "[]"]
          getPaperMax_classification[of "media 0 0" "[]"]
          getPaperMax_classification[of Map.empty "[]"]
          getPaperMax_classification[of media_two "[]"]
    by (simp add: media_ok_media spec_PaperMax_media e c media_two_facts)
qed

text \<open>
  C3 as the specification states it, for every attribute store, fails: in this store
  "media-size-supported" has the collection 21600 by 35400 and then an integer. Its
  first value is a collection, so the attribute is collection-typed, and the words of
  the specification give "legal-A4"; \<open>getPaperMax\<close> asserts every value to be a
  collection and panics on the second.
\<close>

theorem getPaperMax_mixed_values_counterexample:
  "spec_PaperMax media_mixed = Some ''legal-A4'' \<and>
   getPaperMax media_mixed = Inl TypeAssertion"
  by (simp add: media_mixed_def spec_PaperMax_def spec_max_def spec_dimension_def
        spec_classify_def spec_table_def getPaperMax_def find_dims_def dim_max_def)

section \<open>Typed lookup and name resolution\<close>

lemma getAttr_admitted:
  assumes "\<forall>n \<in> set names. attrs n \<noteq> Some []"
      and "find (admits attrs t) names = Some n"
      and "attrs n = Some v"
    shows "getAttr attrs t names = Inr (Some (map snd v))"
  using assms
proof (induction names)
  case Nil
  then show ?case by simp
next
  case (Cons m names)
  show ?case
  proof (cases "admits attrs t m")
    case True
    then have "n = m" using Cons.prems by simp
    then show ?thesis using True Cons.prems
      by (auto simp: admits_def split: option.splits list.splits)
  next
    case False
    then have "find (admits attrs t) names = Some n" using Cons.prems by simp
    then have "getAttr attrs t names = Inr (Some (map snd v))" using Cons by simp
    then show ?thesis using False Cons.prems(1)
      by (auto simp: admits_def split: option.splits list.splits)
  qed
qed

lemma getAttr_none:
  assumes "\<forall>n \<in> set names. attrs n = None"
  shows "getAttr attrs t names = Inr None"
  using assms by (induction names) auto

lemma assertStrings_ok:
  "\<forall>v \<in> set vs. Type_of v = TypeString \<Longrightarrow> \<exists>ss. assertStrings vs = Inr ss"
proof (induction vs)
  case Nil
  show ?case by simp
next
  case (Cons v vs)
  then obtain s where "v = String s" by (cases v) auto
  moreover obtain ss where "assertStrings vs = Inr ss" using Cons by auto
  ultimately show ?case by simp
qed

text \<open>
  When none of the names is in the store, \<open>getStrings\<close> returns the slice it made, of
  length 0 and not nil, and \<open>strSingle\<close> indexes it.
\<close>

lemma strSingle_absent:
  "\<forall>n \<in> set names. attrs n = None \<Longrightarrow> strSingle attrs names = Inl IndexOutOfRange"
  by (simp add: strSingle_def getStrings_def getAttr_none)

lemma strSingle_admitted:
  assumes "\<forall>n \<in> set names. attrs n \<noteq> Some []"
      and "find (admits attrs TypeString) names = Some n"
      and "attrs n = Some ((tag, String s) # rest)"
      and "\<forall>v \<in> set rest. Type_of (snd v) = TypeString"
    shows "strSingle attrs names = Inr s"
proof -
  have ga: "getAttr attrs TypeString names = Inr (Some (String s # map snd rest))"
    using getAttr_admitted[OF assms(1,2,3)] by simp
  obtain ss where "assertStrings (map snd rest) = Inr ss"
    using assertStrings_ok[of "map snd rest"] assms(4) by auto
  then show ?thesis by (simp add: strSingle_def getStrings_def ga)
qed

lemma Decode_dnssd_name:
  assumes "Decode attrs = Inr (name, info)"
  shows "strSingle attrs [''printer-dns-sd-name'', ''printer-info'', ''printer-make-and-model'']
           = Inr name"
  using assms unfolding Decode_def
  by (auto simp: bind_panic_eq_Inr Let_def)

text \<open>
  C6, as amended. For every attribute store in which none of "printer-dns-sd-name",
  "printer-info" and "printer-make-and-model" has an empty list of values: when \<open>n\<close> is
  the first of the three, in this order, that is present with a first value of string
  type, and all the values of \<open>n\<close> are strings, the resolved advertised name is the
  first value of \<open>n\<close>, whatever string it is; an attribute that is present with a first
  value of another type is passed over as if it were absent. (What is resolved when none
  of the three is admitted is left open here.)
\<close>

theorem dnssd_name_resolution:
  assumes "\<forall>n \<in> set [''printer-dns-sd-name'', ''printer-info'', ''printer-make-and-model''].
             attrs n \<noteq> Some []"
      and "find (admits attrs TypeString)
             [''printer-dns-sd-name'', ''printer-info'', ''printer-make-and-model''] = Some n"
      and "attrs n = Some ((tag, String s) # rest)"
      and "\<forall>v \<in> set rest. Type_of (snd v) = TypeString"
    shows "strSingle attrs [''printer-dns-sd-name'', ''printer-info'', ''printer-make-and-model'']
             = Inr s \<and>
           (\<forall>name info. Decode attrs = Inr (name, info) \<longrightarrow> name = s)"
  using strSingle_admitted[OF assms] Decode_dnssd_name[of attrs] by auto

text \<open>
  The spec's example: only "printer-make-and-model" = "Acme X1" is present, and the
  resolved name is "Acme X1".
\<close>

theorem dnssd_name_resolution_witness:
  "strSingle [''printer-make-and-model'' \<mapsto> [(0, String ''Acme X1'')]]
     [''printer-dns-sd-name'', ''printer-info'', ''printer-make-and-model''] = Inr ''Acme X1''"
  using dnssd_name_resolution[of "[''printer-make-and-model'' \<mapsto> [(0, String ''Acme X1'')]]"
     "''printer-make-and-model''" 0 "''Acme X1''" "[]"]
  by (simp add: admits_def)

text \<open>
  C6 as the specification states it fails: in this store "printer-dns-sd-name" is
  present, so it is the first attribute present, with a value that is a text with
  language; the resolved name is the value of "printer-info".
\<close>

theorem dnssd_name_first_present_counterexample:
  "spec_first_present
      [''printer-dns-sd-name'' \<mapsto> [(0, TextWithLang ''en'' ''Office'')],
       ''printer-info'' \<mapsto> [(0, String ''Acme'')]]
      [''printer-dns-sd-name'', ''printer-info'', ''printer-make-and-model'']
     = Some ''printer-dns-sd-name'' \<and>
   strSingle
      [''printer-dns-sd-name'' \<mapsto> [(0, TextWithLang ''en'' ''Office'')],
       ''printer-info'' \<mapsto> [(0, String ''Acme'')]]
      [''printer-dns-sd-name'', ''printer-info'', ''printer-make-and-model'']
     = Inr ''Acme''"
  by (simp add: spec_first_present_def strSingle_def getStrings_def)

text \<open>\<open>Decode\<close> on the example response: the name and the whole TXT record.\<close>

lemma Decode_example:
  "Decode (newIppDecoder printer0) =
   Inr (''Office printer'',
      \<lparr>Type = ''_ipp._tcp'',
         Txt =
           [(''air'', ''none''), (''mopria-certified'', ''1.3''),
            (''rp'', ''ipp/print''), (''priority'', ''50''),
            (''PaperMax'', ''<legal-A4''), (''URF'', ''W8''),
            (''UUID'', ''1234''), (''Color'', ''T''), (''Duplex'', ''T''),
            (''note'', []), (''qtotal'', ''1''), (''usb_MDL'', ''X1''),
            (''usb_MFG'', ''Acme''), (''usb_CMD'', ''PCL,URF''),
            (''ty'', ''Acme X1''), (''product'', ''(Acme X1)''),
            (''pdl'', ''application/pdf,image/urf''),
            (''txtvers'', ''1'')]\<rparr>)"
  by (simp add: printer0_def newIppDecoder_def Decode_def strSingle_def getStrings_def strJoined_def
     strBrackets_def getBool_def getDuplex_def getPaperMax_def classify_def find_dims_def dim_max_def
     parse_devid_def SplitN2_def index_map_def TrimPrefix_def Add_def AddNotEmpty_def
     isoC_a2_x_def isoC_a2_y_def tabloid_a3_x_def tabloid_a3_y_def legal_a4_x_def legal_a4_y_def)

section \<open>The capability query\<close>

text \<open>
  C9. For every response whose transport exchange succeeds (\<open>Post\<close> and the reading of
  the body give the bytes \<open>respData\<close>) but whose protocol decode fails, \<open>IppService\<close>
  returns a nil error together with an empty result: the empty name and a descriptor
  with no type and no fields. The decode error is not returned.
\<close>

theorem IppService_decode_failure:
  assumes "Post = Inr (Inr respData)" and "DecodeBytes respData = Inl err"
  shows "IppService Post DecodeBytes = Inr ('''', \<lparr>Type = '''', Txt = []\<rparr>, None)"
  using assms by (simp add: IppService_def)

theorem IppService_decode_failure_witness:
  "IppService (Inr (Inr [1, 2, 3])) (\<lambda>respData. Inl (Error ''bad message''))
     = Inr ('''', \<lparr>Type = '''', Txt = []\<rparr>, None)"
  using IppService_decode_failure[of "Inr (Inr [1, 2, 3])" "[1, 2, 3]"
          "\<lambda>respData. Inl (Error ''bad message'')" "Error ''bad message''"]
  by simp

text \<open>
  C10 fails on the code. The store made from a response with the one attribute
  "printer-make-and-model" = "Acme X1" is homogeneously typed, and \<open>Decode\<close> panics on
  it: "printer-device-id" is absent, \<open>getStrings\<close> returns an allocated slice of length
  0, which is not nil, and \<open>strSingle\<close> reads its element 0. \<open>IppService\<close> panics with
  it.
\<close>

theorem Decode_panics_on_absent_attribute:
  "homogeneous (newIppDecoder [Attribute ''printer-make-and-model'' [(0, String ''Acme X1'')]]) \<and>
   Decode (newIppDecoder [Attribute ''printer-make-and-model'' [(0, String ''Acme X1'')]])
     = Inl IndexOutOfRange \<and>
   IppService (Inr (Inr [1, 2, 3]))
      (\<lambda>respData. Inr [Attribute ''printer-make-and-model'' [(0, String ''Acme X1'')]])
     = Inl IndexOutOfRange"
  by (simp add: homogeneous_def newIppDecoder_def Decode_def strSingle_def getStrings_def
        IppService_def)

theorem Decode_panics_on_absent_attribute_witness:
  "Decode (newIppDecoder [Attribute ''printer-make-and-model'' [(0, String ''Acme X1'')]])
     = Inl IndexOutOfRange"
  using Decode_panics_on_absent_attribute by blast

section \<open>Construction of a device\<close>

lemma update_state_events:
  "update_state name st = (st', evs) \<Longrightarrow> released evs = [] \<and> acquired evs = []"
  by (auto simp: update_state_def Let_def split: if_splits)

lemma NewDevice_services_events:
  "NewDevice_services e st = Inr (st', svcs, evs) \<Longrightarrow>
     (st', evs) = update_state (resolve_dnssdName e (fst (snd (env_IppService e)))) st"
  by (auto simp: NewDevice_services_def bind_panic_def split: prod.splits sum.splits)

lemma NewDevice_services_no_release:
  "NewDevice_services e st = Inr (st', svcs, evs) \<Longrightarrow> released evs = [] \<and> acquired evs = []"
  using NewDevice_services_events[of e st st' svcs evs] update_state_events by metis

lemma NewDevice_services_ok:
  "scan_index_ok e \<Longrightarrow> \<exists>st' svcs evs. NewDevice_services e st = Inr (st', svcs, evs)"
  by (auto simp: scan_index_ok_def NewDevice_services_def amend_scan_def Let_def
           split: prod.splits option.splits)

lemma NewDevice_transport_fails:
  "env_NewUsbTransport e = Inl err \<Longrightarrow> NewDevice e addr = Inr (None, Some err, [])"
  by (simp add: NewDevice_def NewDevice_ERROR_def)

lemma NewDevice_listener_fails:
  "env_NewUsbTransport e = Inr t \<Longrightarrow> env_HTTPListen e (env_LoadDevState e) = (Inl err, st) \<Longrightarrow>
   NewDevice e addr =
     Inr (None, Some err, [Acquired (ResTransport t), Released (ResTransport t)])"
  by (simp add: NewDevice_def NewDevice_ERROR_def)

lemma NewDevice_publish_fails:
  "env_NewUsbTransport e = Inr t \<Longrightarrow> env_HTTPListen e (env_LoadDevState e) = (Inr l, st) \<Longrightarrow>
   NewDevice_services e st = Inr (st', svcs, evs) \<Longrightarrow> env_DNSSdEnable e \<Longrightarrow>
   env_Publish e (NewDNSSdPublisher st' svcs) = Some err \<Longrightarrow>
   NewDevice e addr =
     Inr (None, Some err,
          [Acquired (ResTransport t), Acquired (ResListener l),
           Acquired (ResProxy (NewHTTPProxy l t))] @ evs @
          [Released (ResProxy (NewHTTPProxy l t)), Released (ResTransport t),
           Released (ResListener l)])"
  by (simp add: NewDevice_def NewDevice_ERROR_def)

lemma NewDevice_success:
  assumes "env_NewUsbTransport e = Inr t"
      and "env_HTTPListen e (env_LoadDevState e) = (Inr l, st)"
      and "NewDevice_services e st = Inr (st', svcs, evs)"
      and "env_DNSSdEnable e" and "env_Publish e (NewDNSSdPublisher st' svcs) = None"
    shows "\<exists>dev tr. NewDevice e addr = Inr (Some dev, None, tr) \<and>
             DNSSdPublisher dev = Some (NewDNSSdPublisher st' svcs) \<and> State dev = Some st'"
  using assms by (simp add: NewDevice_def Let_def)

lemma env0_services: "NewDevice_services env0 state0 = Inr (state0, services0, [])"
  by (simp add: NewDevice_services_def env0_def state0_def services0_def update_state_def
        resolve_dnssdName_def amend_scan_def Add_def)

lemma env0_facts:
  "env_NewUsbTransport env0 = Inr (Transport 1)"
  "env_HTTPListen env0 (env_LoadDevState env0) = (Inr (Listener 2), state0)"
  "env_DNSSdEnable env0"
  "env_Publish env0 p = Some (Error ''publish failed'')"
  by (simp_all add: env0_def)

text \<open>
  C1, as amended. For every failing construction of a device, \<open>NewDevice\<close> returns no
  device together with the error of the failing step, unchanged, and releases exactly the
  resources that the steps before it acquired, each once: nothing when the transport
  cannot be acquired; the transport, once, when the listener cannot be acquired; and,
  when \<open>Publish\<close> fails, the proxy, then the transport, then the listener, which is the
  order of the statements after the label \<open>ERROR\<close> and not the reverse of the order
  transport, listener, proxy in which they were acquired.
\<close>

theorem NewDevice_failure_cleanup:
  "(env_NewUsbTransport e = Inl err \<longrightarrow>
      (\<exists>tr. NewDevice e addr = Inr (None, Some err, tr) \<and>
            acquired tr = [] \<and> released tr = []))
   \<and>
   (\<forall>t st. env_NewUsbTransport e = Inr t \<and>
           env_HTTPListen e (env_LoadDevState e) = (Inl err, st) \<longrightarrow>
      (\<exists>tr. NewDevice e addr = Inr (None, Some err, tr) \<and>
            acquired tr = [ResTransport t] \<and> released tr = [ResTransport t]))
   \<and>
   (\<forall>t l st st' svcs evs.
      env_NewUsbTransport e = Inr t \<and>
      env_HTTPListen e (env_LoadDevState e) = (Inr l, st) \<and>
      NewDevice_services e st = Inr (st', svcs, evs) \<and>
      env_DNSSdEnable e \<and> env_Publish e (NewDNSSdPublisher st' svcs) = Some err \<longrightarrow>
      (\<exists>tr. NewDevice e addr = Inr (None, Some err, tr) \<and>
            acquired tr = [ResTransport t, ResListener l, ResProxy (NewHTTPProxy l t)] \<and>
            released tr = [ResProxy (NewHTTPProxy l t), ResTransport t, ResListener l]))"
proof (intro conjI allI impI)
  assume "env_NewUsbTransport e = Inl err"
  then show "\<exists>tr. NewDevice e addr = Inr (None, Some err, tr) \<and>
                  acquired tr = [] \<and> released tr = []"
    by (simp add: NewDevice_transport_fails)
next
  fix t st
  assume "env_NewUsbTransport e = Inr t \<and>
          env_HTTPListen e (env_LoadDevState e) = (Inl err, st)"
  then show "\<exists>tr. NewDevice e addr = Inr (None, Some err, tr) \<and>
                  acquired tr = [ResTransport t] \<and> released tr = [ResTransport t]"
    by (simp add: NewDevice_listener_fails)
next
  fix t l st st' svcs evs
  assume a: "env_NewUsbTransport e = Inr t \<and>
      env_HTTPListen e (env_LoadDevState e) = (Inr l, st) \<and>
      NewDevice_services e st = Inr (st', svcs, evs) \<and>
      env_DNSSdEnable e \<and> env_Publish e (NewDNSSdPublisher st' svcs) = Some err"
  then have "released evs = [] \<and> acquired evs = []"
    using NewDevice_services_no_release by blast
  then show "\<exists>tr. NewDevice e addr = Inr (None, Some err, tr) \<and>
            acquired tr = [ResTransport t, ResListener l, ResProxy (NewHTTPProxy l t)] \<and>
            released tr = [ResProxy (NewHTTPProxy l t), ResTransport t, ResListener l]"
    using a NewDevice_publish_fails[of e t l st st' svcs evs err addr] by simp
qed

text \<open>
  The three failures, each at a device: no transport; a transport and no listener (the
  spec's case: the transport is closed exactly once and the error is the listener's);
  and a failing \<open>Publish\<close>.
\<close>

theorem NewDevice_failure_cleanup_witness:
  "(\<exists>tr. NewDevice env_no_transport 7 = Inr (None, Some (Error ''no device''), tr) \<and>
         acquired tr = [] \<and> released tr = []) \<and>
   (\<exists>tr. NewDevice env_no_listener 7 = Inr (None, Some (Error ''port in use''), tr) \<and>
         acquired tr = [ResTransport (Transport 1)] \<and>
         released tr = [ResTransport (Transport 1)]) \<and>
   (\<exists>tr. NewDevice env0 7 = Inr (None, Some (Error ''publish failed''), tr) \<and>
         acquired tr = [ResTransport (Transport 1), ResListener (Listener 2),
                        ResProxy (NewHTTPProxy (Listener 2) (Transport 1))] \<and>
         released tr = [ResProxy (NewHTTPProxy (Listener 2) (Transport 1)),
                        ResTransport (Transport 1), ResListener (Listener 2)])"
proof (intro conjI)
  have "env_NewUsbTransport env_no_transport = Inl (Error ''no device'')"
    by (simp add: env_no_transport_def)
  then show "\<exists>tr. NewDevice env_no_transport 7 = Inr (None, Some (Error ''no device''), tr) \<and>
         acquired tr = [] \<and> released tr = []"
    using NewDevice_failure_cleanup[of env_no_transport "Error ''no device''" 7] by blast
next
  have "env_NewUsbTransport env_no_listener = Inr (Transport 1) \<and>
        env_HTTPListen env_no_listener (env_LoadDevState env_no_listener)
          = (Inl (Error ''port in use''), state0)"
    by (simp add: env_no_listener_def env0_def)
  then show "\<exists>tr. NewDevice env_no_listener 7 = Inr (None, Some (Error ''port in use''), tr) \<and>
         acquired tr = [ResTransport (Transport 1)] \<and>
         released tr = [ResTransport (Transport 1)]"
    using NewDevice_failure_cleanup[of env_no_listener "Error ''port in use''" 7] by blast
next
  have "env_NewUsbTransport env0 = Inr (Transport 1) \<and>
        env_HTTPListen env0 (env_LoadDevState env0) = (Inr (Listener 2), state0) \<and>
        NewDevice_services env0 state0 = Inr (state0, services0, []) \<and>
        env_DNSSdEnable env0 \<and>
        env_Publish env0 (NewDNSSdPublisher state0 services0) = Some (Error ''publish failed'')"
    using env0_facts env0_services by simp
  then show "\<exists>tr. NewDevice env0 7 = Inr (None, Some (Error ''publish failed''), tr) \<and>
         acquired tr = [ResTransport (Transport 1), ResListener (Listener 2),
                        ResProxy (NewHTTPProxy (Listener 2) (Transport 1))] \<and>
         released tr = [ResProxy (NewHTTPProxy (Listener 2) (Transport 1)),
                        ResTransport (Transport 1), ResListener (Listener 2)]"
    using NewDevice_failure_cleanup[of env0 "Error ''publish failed''" 7] by blast
qed

text \<open>
  C1 as the specification states it fails: when \<open>Publish\<close> fails, the resources are
  not released in the reverse of the order of their acquisition. The transport was
  acquired before the listener and is closed before it.
\<close>

theorem NewDevice_release_order_counterexample:
  "NewDevice env0 7 =
     Inr (None, Some (Error ''publish failed''),
          [Acquired (ResTransport (Transport 1)), Acquired (ResListener (Listener 2)),
           Acquired (ResProxy (NewHTTPProxy (Listener 2) (Transport 1))),
           Released (ResProxy (NewHTTPProxy (Listener 2) (Transport 1))),
           Released (ResTransport (Transport 1)), Released (ResListener (Listener 2))]) \<and>
   released
          [Acquired (ResTransport (Transport 1)), Acquired (ResListener (Listener 2)),
           Acquired (ResProxy (NewHTTPProxy (Listener 2) (Transport 1))),
           Released (ResProxy (NewHTTPProxy (Listener 2) (Transport 1))),
           Released (ResTransport (Transport 1)), Released (ResListener (Listener 2))]
     \<noteq> rev (acquired
          [Acquired (ResTransport (Transport 1)), Acquired (ResListener (Listener 2)),
           Acquired (ResProxy (NewHTTPProxy (Listener 2) (Transport 1))),
           Released (ResProxy (NewHTTPProxy (Listener 2) (Transport 1))),
           Released (ResTransport (Transport 1)), Released (ResListener (Listener 2))])"
  using NewDevice_publish_fails[OF env0_facts(1) env0_facts(2) env0_services env0_facts(3)
          env0_facts(4), of 7]
  by simp

section \<open>The scan flag and the persisted state\<close>

text \<open>
  C7. Whenever there is a print descriptor (\<open>ippinfo\<close> is not nil, and the index it
  recorded is an index of the services), after the scan query the services are those the
  scan query left, but that the descriptor at the recorded index has one more field,
  "Scan", at the end of its record: "T" when the scan query returned no error and "F"
  when it returned one; the web descriptor follows them. The field is never left out.
\<close>

theorem scan_flag_amended:
  assumes "env_IppService e = (svcs0, Some ippinfo, ipp_err)"
      and "env_EsclService e svcs0 (Some ippinfo) = (svcs1, err)"
      and "0 \<le> IppSvcIndex ippinfo" and "IppSvcIndex ippinfo < int (length svcs1)"
    shows "\<exists>st' evs.
             NewDevice_services e st =
               Inr (st',
                    svcs1[nat (IppSvcIndex ippinfo) :=
                      (svcs1 ! nat (IppSvcIndex ippinfo))
                        \<lparr>SvcTxt := SvcTxt (svcs1 ! nat (IppSvcIndex ippinfo)) @
                                     [(''Scan'', if err = None then ''T'' else ''F'')]\<rparr>] @
                    [\<lparr>SvcType = ''_http._tcp'', Port = HTTPPort st', SvcTxt = []\<rparr>],
                    evs)"
  using assms
  by (auto simp: NewDevice_services_def amend_scan_def Add_def Let_def split: prod.splits)

text \<open>
  The spec's example: the print query succeeds and the scan query fails, and the print
  descriptor has "Scan" = "F".
\<close>

theorem scan_flag_amended_witness:
  "\<exists>st' evs.
     NewDevice_services env0 state0 =
       Inr (st',
            [\<lparr>SvcType = ''_ipp._tcp'', Port = 60000,
              SvcTxt = [(''air'', ''none''), (''Scan'', ''F'')]\<rparr>,
             \<lparr>SvcType = ''_http._tcp'', Port = HTTPPort st', SvcTxt = []\<rparr>],
            evs)"
proof -
  have "env_IppService env0 =
          ([\<lparr>SvcType = ''_ipp._tcp'', Port = 60000, SvcTxt = [(''air'', ''none'')]\<rparr>],
           Some \<lparr>IppDNSSdName = ''Acme X1'', IppSvcIndex = 0\<rparr>, None)"
       "env_EsclService env0
          [\<lparr>SvcType = ''_ipp._tcp'', Port = 60000, SvcTxt = [(''air'', ''none'')]\<rparr>]
          (Some \<lparr>IppDNSSdName = ''Acme X1'', IppSvcIndex = 0\<rparr>) =
          ([\<lparr>SvcType = ''_ipp._tcp'', Port = 60000, SvcTxt = [(''air'', ''none'')]\<rparr>],
           Some (Error ''no scanner''))"
    by (simp_all add: env0_def)
  from scan_flag_amended[OF this, of state0] show ?thesis by simp
qed

text \<open>
  C8. During a construction that has its transport and its listener (and whose scan
  amendment has its descriptor), the state is saved if and only if the resolved name
  differs from the name the state holds: when it differs, the state is saved once, with
  the name and the override both set to the resolved name, and that is the state of the
  device returned; when the names are equal, nothing is saved and the state is as it was.
\<close>

theorem state_saved_iff_name_changed:
  assumes "env_NewUsbTransport e = Inr t"
      and "env_HTTPListen e (env_LoadDevState e) = (Inr l, st)"
      and "scan_index_ok e"
      and "name = resolve_dnssdName e (fst (snd (env_IppService e)))"
    shows "\<exists>d err tr. NewDevice e addr = Inr (d, err, tr) \<and>
             (saved tr \<noteq> [] \<longleftrightarrow> name \<noteq> DNSSdName st) \<and>
             (name \<noteq> DNSSdName st \<longrightarrow>
                saved tr = [st\<lparr>DNSSdName := name, DNSSdOverride := name\<rparr>] \<and>
                (\<forall>dev. d = Some dev \<longrightarrow>
                   State dev = Some (st\<lparr>DNSSdName := name, DNSSdOverride := name\<rparr>))) \<and>
             (name = DNSSdName st \<longrightarrow>
                saved tr = [] \<and> (\<forall>dev. d = Some dev \<longrightarrow> State dev = Some st))"
proof -
  obtain st' svcs evs where sv: "NewDevice_services e st = Inr (st', svcs, evs)"
    using NewDevice_services_ok[OF assms(3)] by blast
  have up: "(st', evs) = update_state name st"
    using NewDevice_services_events[OF sv] assms(4) by simp
  show ?thesis
  proof (cases "env_DNSSdEnable e")
    case False
    then show ?thesis using assms(1,2) sv up
      by (auto simp: NewDevice_def update_state_def Let_def split: if_splits)
  next
    case True
    show ?thesis
    proof (cases "env_Publish e (NewDNSSdPublisher st' svcs)")
      case None
      then show ?thesis using True assms(1,2) sv up
        by (auto simp: NewDevice_def update_state_def Let_def split: if_splits)
    next
      case (Some perr)
      then show ?thesis using True assms(1,2) sv up
        by (auto simp: NewDevice_def NewDevice_ERROR_def update_state_def Let_def
                 split: if_splits)
    qed
  qed
qed

text \<open>
  Two constructions: one whose resolved name "Acme X1" is the stored name, with nothing
  saved, and one whose stored name is another, with the state saved under the new name.
\<close>

theorem state_saved_iff_name_changed_witness:
  "(\<exists>d err tr. NewDevice env0 7 = Inr (d, err, tr) \<and> saved tr = []) \<and>
   (\<exists>d err tr. NewDevice env_renamed 7 = Inr (d, err, tr) \<and>
      saved tr = [\<lparr>DNSSdName = ''Acme X1'', DNSSdOverride = ''Acme X1'', HTTPPort = 60000\<rparr>])"
proof (intro conjI)
  have "env_NewUsbTransport env0 = Inr (Transport 1)"
       "env_HTTPListen env0 (env_LoadDevState env0) = (Inr (Listener 2), state0)"
       "scan_index_ok env0"
       "''Acme X1'' = resolve_dnssdName env0 (fst (snd (env_IppService env0)))"
    by (simp_all add: env0_def scan_index_ok_def resolve_dnssdName_def)
  from state_saved_iff_name_changed[OF this, of 7]
  show "\<exists>d err tr. NewDevice env0 7 = Inr (d, err, tr) \<and> saved tr = []"
    by (auto simp: state0_def)
next
  have "env_NewUsbTransport env_renamed = Inr (Transport 1)"
       "env_HTTPListen env_renamed (env_LoadDevState env_renamed)
          = (Inr (Listener 2), state0\<lparr>DNSSdName := ''Old name''\<rparr>)"
       "scan_index_ok env_renamed"
       "''Acme X1'' = resolve_dnssdName env_renamed (fst (snd (env_IppService env_renamed)))"
    by (simp_all add: env_renamed_def env0_def scan_index_ok_def resolve_dnssdName_def)
  from state_saved_iff_name_changed[OF this, of 7]
  show "\<exists>d err tr. NewDevice env_renamed 7 = Inr (d, err, tr) \<and>
      saved tr = [\<lparr>DNSSdName = ''Acme X1'', DNSSdOverride = ''Acme X1'', HTTPPort = 60000\<rparr>]"
    by (auto simp: state0_def)
qed

section \<open>Shutdown and Close\<close>

lemma Close_result:
  "Close dev =
     Inr (dev\<lparr>DNSSdPublisher := None, HTTPProxy := None, UsbTransport := None\<rparr>,
          (case DNSSdPublisher dev of None \<Rightarrow> [] | Some p \<Rightarrow> [Released (ResPublisher p)]) @
          (case HTTPProxy dev of None \<Rightarrow> [] | Some p \<Rightarrow> [Released (ResProxy p)]) @
          (case UsbTransport dev of None \<Rightarrow> [] | Some t \<Rightarrow> [Released (ResTransport t)]))"
  by (cases dev) (auto simp: Close_def Let_def)

lemma Shutdown_result:
  "Shutdown dev shutdown =
     Inr (dev\<lparr>DNSSdPublisher := None, HTTPProxy := None\<rparr>,
          (case UsbTransport dev of None \<Rightarrow> None | Some t \<Rightarrow> shutdown t),
          (case DNSSdPublisher dev of None \<Rightarrow> [] | Some p \<Rightarrow> [Released (ResPublisher p)]) @
          (case HTTPProxy dev of None \<Rightarrow> [] | Some p \<Rightarrow> [Released (ResProxy p)]) @
          (case UsbTransport dev of None \<Rightarrow> [] | Some t \<Rightarrow> [TransportShutdown t]))"
  by (cases dev) (auto simp: Shutdown_def Let_def)

lemma Close_live:
  assumes "Close dev = Inr (dev', evs)"
  shows "distinct (released evs) \<and> set (released evs) = live dev \<and> live dev' = {}"
  using assms unfolding Close_result
  by (auto simp: live_def split: option.splits)

lemma Shutdown_live:
  assumes "Shutdown dev shutdown = Inr (dev', err, evs)"
  shows "distinct (released evs) \<and> set (released evs) \<subseteq> live dev \<and>
         live dev' = live dev - set (released evs)"
  using assms unfolding Shutdown_result
  by (auto simp: live_def split: option.splits)

lemma run_calls_released:
  "\<exists>dev' evs. run_calls cs dev = Inr (dev', evs) \<and> distinct (released evs) \<and>
               set (released evs) \<subseteq> live dev"
proof (induction cs arbitrary: dev)
  case Nil
  show ?case by simp
next
  case (Cons c cs)
  show ?case
  proof (cases c)
    case (CallShutdown shutdown)
    obtain dev1 err evs1 where s: "Shutdown dev shutdown = Inr (dev1, err, evs1)"
      by (simp add: Shutdown_result)
    obtain dev2 evs2 where r: "run_calls cs dev1 = Inr (dev2, evs2)"
      "distinct (released evs2)" "set (released evs2) \<subseteq> live dev1"
      using Cons[of dev1] by blast
    have "run_calls (c # cs) dev = Inr (dev2, evs1 @ evs2)"
      using CallShutdown s r(1) by simp
    moreover have "distinct (released (evs1 @ evs2))"
      "set (released (evs1 @ evs2)) \<subseteq> live dev"
      using Shutdown_live[OF s] r(2,3) by auto
    ultimately show ?thesis by blast
  next
    case CallClose
    obtain dev1 evs1 where s: "Close dev = Inr (dev1, evs1)"
      by (simp add: Close_result)
    obtain dev2 evs2 where r: "run_calls cs dev1 = Inr (dev2, evs2)"
      "distinct (released evs2)" "set (released evs2) \<subseteq> live dev1"
      using Cons[of dev1] by blast
    have "run_calls (c # cs) dev = Inr (dev2, evs1 @ evs2)"
      using CallClose s r(1) by simp
    moreover have "distinct (released (evs1 @ evs2))"
      "set (released (evs1 @ evs2)) \<subseteq> live dev"
      using Close_live[OF s] r(2,3) by auto
    ultimately show ?thesis by blast
  qed
qed

text \<open>
  C2, as amended. \<open>Close\<close> is idempotent: it releases each resource whose reference is
  live (the publisher, the proxy, the transport, in this order), clears the three
  references, and a second \<open>Close\<close> releases nothing and changes nothing. \<open>Shutdown\<close>
  releases the publisher and the proxy when their references are live and clears these
  two; when the transport's reference is live it calls the transport's \<open>Shutdown\<close>,
  returns what that call returns and keeps the reference, so that a second \<open>Shutdown\<close>
  calls the transport's \<open>Shutdown\<close> again and returns its result, and a \<open>Close\<close>
  after \<open>Shutdown\<close> closes just the transport and clears its reference. No sequence of
  calls of \<open>Shutdown\<close> and \<open>Close\<close> panics, and in none of them is \<open>Close()\<close> or
  \<open>Unpublish()\<close> called twice on one resource: the resources released are resources the
  device referred to, each released once.
\<close>

theorem lifecycle_calls_release_once:
  "Close dev =
     Inr (dev\<lparr>DNSSdPublisher := None, HTTPProxy := None, UsbTransport := None\<rparr>,
          (case DNSSdPublisher dev of None \<Rightarrow> [] | Some p \<Rightarrow> [Released (ResPublisher p)]) @
          (case HTTPProxy dev of None \<Rightarrow> [] | Some p \<Rightarrow> [Released (ResProxy p)]) @
          (case UsbTransport dev of None \<Rightarrow> [] | Some t \<Rightarrow> [Released (ResTransport t)])) \<and>
   Close (dev\<lparr>DNSSdPublisher := None, HTTPProxy := None, UsbTransport := None\<rparr>) =
     Inr (dev\<lparr>DNSSdPublisher := None, HTTPProxy := None, UsbTransport := None\<rparr>, []) \<and>
   Shutdown dev shutdown =
     Inr (dev\<lparr>DNSSdPublisher := None, HTTPProxy := None\<rparr>,
          (case UsbTransport dev of None \<Rightarrow> None | Some t \<Rightarrow> shutdown t),
          (case DNSSdPublisher dev of None \<Rightarrow> [] | Some p \<Rightarrow> [Released (ResPublisher p)]) @
          (case HTTPProxy dev of None \<Rightarrow> [] | Some p \<Rightarrow> [Released (ResProxy p)]) @
          (case UsbTransport dev of None \<Rightarrow> [] | Some t \<Rightarrow> [TransportShutdown t])) \<and>
   Shutdown (dev\<lparr>DNSSdPublisher := None, HTTPProxy := None\<rparr>) shutdown' =
     Inr (dev\<lparr>DNSSdPublisher := None, HTTPProxy := None\<rparr>,
          (case UsbTransport dev of None \<Rightarrow> None | Some t \<Rightarrow> shutdown' t),
          (case UsbTransport dev of None \<Rightarrow> [] | Some t \<Rightarrow> [TransportShutdown t])) \<and>
   Close (dev\<lparr>DNSSdPublisher := None, HTTPProxy := None\<rparr>) =
     Inr (dev\<lparr>DNSSdPublisher := None, HTTPProxy := None, UsbTransport := None\<rparr>,
          (case UsbTransport dev of None \<Rightarrow> [] | Some t \<Rightarrow> [Released (ResTransport t)])) \<and>
   (\<exists>dev' evs. run_calls cs dev = Inr (dev', evs) \<and> distinct (released evs) \<and>
       set (released evs) \<subseteq> live dev)"
proof (intro conjI)
  show "\<exists>dev' evs. run_calls cs dev = Inr (dev', evs) \<and> distinct (released evs) \<and>
       set (released evs) \<subseteq> live dev"
    by (rule run_calls_released)
qed (simp_all add: Close_result Shutdown_result)

text \<open>
  On a device with a publisher, a proxy and a transport: a \<open>Shutdown\<close> whose transport
  runs into the deadline returns that error and leaves the transport referenced; a
  second \<open>Shutdown\<close> asks the transport again; \<open>Close\<close> after \<open>Shutdown\<close> closes the
  transport only; \<open>Close\<close> releases the three, and after it releases nothing.
\<close>

theorem lifecycle_calls_release_once_witness:
  "Shutdown dev0 (\<lambda>t. Some (Error ''deadline exceeded'')) =
     Inr (dev0\<lparr>DNSSdPublisher := None, HTTPProxy := None\<rparr>,
          Some (Error ''deadline exceeded''),
          [Released (ResPublisher (NewDNSSdPublisher state0 services0)),
           Released (ResProxy (NewHTTPProxy (Listener 2) (Transport 1))),
           TransportShutdown (Transport 1)]) \<and>
   Shutdown (dev0\<lparr>DNSSdPublisher := None, HTTPProxy := None\<rparr>) (\<lambda>t. None) =
     Inr (dev0\<lparr>DNSSdPublisher := None, HTTPProxy := None\<rparr>, None,
          [TransportShutdown (Transport 1)]) \<and>
   Close (dev0\<lparr>DNSSdPublisher := None, HTTPProxy := None\<rparr>) =
     Inr (dev0\<lparr>DNSSdPublisher := None, HTTPProxy := None, UsbTransport := None\<rparr>,
          [Released (ResTransport (Transport 1))]) \<and>
   Close dev0 =
     Inr (dev0\<lparr>DNSSdPublisher := None, HTTPProxy := None, UsbTransport := None\<rparr>,
          [Released (ResPublisher (NewDNSSdPublisher state0 services0)),
           Released (ResProxy (NewHTTPProxy (Listener 2) (Transport 1))),
           Released (ResTransport (Transport 1))]) \<and>
   Close (dev0\<lparr>DNSSdPublisher := None, HTTPProxy := None, UsbTransport := None\<rparr>) =
     Inr (dev0\<lparr>DNSSdPublisher := None, HTTPProxy := None, UsbTransport := None\<rparr>, []) \<and>
   (\<exists>dev' evs. run_calls [CallShutdown (\<lambda>t. None), CallClose] dev0 = Inr (dev', evs) \<and>
      distinct (released evs) \<and> set (released evs) \<subseteq> live dev0)"
proof -
  have d: "DNSSdPublisher dev0 = Some (NewDNSSdPublisher state0 services0)"
          "HTTPProxy dev0 = Some (NewHTTPProxy (Listener 2) (Transport 1))"
          "UsbTransport dev0 = Some (Transport 1)"
    by (simp_all add: dev0_def)
  show ?thesis
    using lifecycle_calls_release_once
            [of dev0 "\<lambda>t. Some (Error ''deadline exceeded'')" "\<lambda>t. None"
                "[CallShutdown (\<lambda>t. None), CallClose]"]
    by (simp only: d option.case append_Cons append_Nil)
qed

text \<open>
  C2 as the specification states it fails: \<open>Shutdown\<close> does not clear the reference to
  the transport after it has shut it down. After \<open>Shutdown\<close> the reference is still
  there; a second \<open>Shutdown\<close> shuts the same transport down again, and a \<open>Close\<close> after
  \<open>Shutdown\<close> closes the transport that \<open>Shutdown\<close> has shut down.
\<close>

theorem Shutdown_keeps_transport_counterexample:
  "Shutdown dev0 (\<lambda>t. None) =
     Inr (dev0\<lparr>DNSSdPublisher := None, HTTPProxy := None\<rparr>, None,
          [Released (ResPublisher (NewDNSSdPublisher state0 services0)),
           Released (ResProxy (NewHTTPProxy (Listener 2) (Transport 1))),
           TransportShutdown (Transport 1)]) \<and>
   UsbTransport (dev0\<lparr>DNSSdPublisher := None, HTTPProxy := None\<rparr>) = Some (Transport 1) \<and>
   run_calls [CallShutdown (\<lambda>t. None), CallShutdown (\<lambda>t. None)] dev0 =
     Inr (dev0\<lparr>DNSSdPublisher := None, HTTPProxy := None\<rparr>,
          [Released (ResPublisher (NewDNSSdPublisher state0 services0)),
           Released (ResProxy (NewHTTPProxy (Listener 2) (Transport 1))),
           TransportShutdown (Transport 1), TransportShutdown (Transport 1)]) \<and>
   run_calls [CallShutdown (\<lambda>t. None), CallClose] dev0 =
     Inr (dev0\<lparr>DNSSdPublisher := None, HTTPProxy := None, UsbTransport := None\<rparr>,
          [Released (ResPublisher (NewDNSSdPublisher state0 services0)),
           Released (ResProxy (NewHTTPProxy (Listener 2) (Transport 1))),
           TransportShutdown (Transport 1), Released (ResTransport (Transport 1))])"
  by (simp add: Shutdown_result Close_result dev0_def)

end
